theory Spec2Isabelle
  imports Complex_Main "HOL-Library.Word" "HOL-Library.Log_Nat"
begin

section \<open>Domain model (internal/models)\<close>

text \<open>
  The Go source stores prices and quantities as \<open>float64\<close>. In the first model of
  the matching loop they are exact rationals: comparison, subtraction and \<open>min\<close> are the
  only operations the engine applies to them. Rounding and NaN are the subject of the
  second model of the loop, in \<open>float64\<close> arithmetic. The identifiers and the two global
  counters are \<open>uint64\<close> and are modelled as 64-bit words, whose addition wraps.
\<close>

datatype OrderType = Limit | Market | IOC | FOK | PostOnly

datatype OrderSide = Buy | Sell

datatype OrderStatus = New | Partial | Filled | Cancelled | Rejected

text \<open>
  \<open>models.Order\<close>. The fields \<open>Account\<close>, \<open>Timestamp\<close>, \<open>LastUpdated\<close>, \<open>ClientOID\<close>,
  \<open>Tags\<close> and \<open>MarginParams\<close> are never read or written by the engine and are left out.
\<close>

record Order =
  ID :: "64 word"
  Price :: rat
  Quantity :: rat
  Remaining :: rat
  Side :: OrderSide
  Type :: OrderType
  Instrument :: string
  Status :: OrderStatus

text \<open>
  \<open>models.Trade\<close>. \<open>Timestamp\<close> (the wall clock), \<open>Fee\<close>, \<open>FeeCurrency\<close> and \<open>Tags\<close>
  are not set from any engine state and are left out. The field names carry the suffix
  \<open>_t\<close> where they would clash with the fields of \<open>Order\<close>.
\<close>

record Trade =
  TradeID :: "64 word"
  ExecutionID :: "64 word"
  Price_t :: rat
  Quantity_t :: rat
  MakerOrderID :: "64 word"
  TakerOrderID :: "64 word"
  Instrument_t :: string
  Side_t :: OrderSide

text \<open>\<open>(*Order).IsActive\<close>.\<close>

definition IsActive :: "Order \<Rightarrow> bool" where
  "IsActive o1 = (Status o1 = New \<or> Status o1 = Partial)"

section \<open>Order book (engine: OrderBook, OrderSide, OrderNode)\<close>

text \<open>
  A side of the book is a singly linked list of \<open>OrderNode\<close>s with a \<open>head\<close> and a \<open>tail\<close>
  pointer; it is modelled as the list of the orders of its nodes, head first. Nodes are
  only ever appended behind \<open>tail\<close> and never unlinked, so \<open>head\<close> is nil exactly when the
  list is empty. The fields \<open>counter\<close> of a side, \<open>quantity\<close> of a node and
  \<open>bidSeq\<close>/\<open>askSeq\<close> of the book are not read by any function modelled here and are
  left out. The two channels of the book are modelled as the lists of the values sent on
  them, oldest first; a send never blocks in the model.
\<close>

record OrderBook =
  bids :: "Order list"
  asks :: "Order list"
  incomingOrders :: "Order list"
  processedTrades :: "Trade list"

definition NewOrderBook :: OrderBook where
  "NewOrderBook = \<lparr>bids = [], asks = [], incomingOrders = [], processedTrades = []\<rparr>"

text \<open>\<open>AddBid\<close> and \<open>AddAsk\<close>: the new node replaces \<open>tail\<close> and is linked behind the old tail
  (or becomes \<open>head\<close> when the list was empty).\<close>

definition AddBid :: "OrderBook \<Rightarrow> Order \<Rightarrow> OrderBook" where
  "AddBid ob order = ob\<lparr>bids := bids ob @ [order]\<rparr>"

definition AddAsk :: "OrderBook \<Rightarrow> Order \<Rightarrow> OrderBook" where
  "AddAsk ob order = ob\<lparr>asks := asks ob @ [order]\<rparr>"

text \<open>\<open>removeBid\<close> and \<open>removeAsk\<close> have empty bodies in the source.\<close>

definition removeBid :: "OrderBook \<Rightarrow> Order \<Rightarrow> OrderBook" where
  "removeBid ob order = ob"

definition removeAsk :: "OrderBook \<Rightarrow> Order \<Rightarrow> OrderBook" where
  "removeAsk ob order = ob"

text \<open>\<open>GetBestBid\<close> and \<open>GetBestAsk\<close> return the order of the head node, \<open>None\<close> standing
  for \<open>(nil, false)\<close>.\<close>

definition GetBestBid :: "OrderBook \<Rightarrow> Order option" where
  "GetBestBid ob = (case bids ob of [] \<Rightarrow> None | n # ns \<Rightarrow> Some n)"

definition GetBestAsk :: "OrderBook \<Rightarrow> Order option" where
  "GetBestAsk ob = (case asks ob of [] \<Rightarrow> None | n # ns \<Rightarrow> Some n)"

text \<open>\<open>GetBestBidPrice\<close> and \<open>GetBestAskPrice\<close> (book.go) return \<open>(0, false)\<close> on an empty
  side.\<close>

definition GetBestBidPrice :: "OrderBook \<Rightarrow> rat \<times> bool" where
  "GetBestBidPrice ob = (case bids ob of [] \<Rightarrow> (0, False) | n # ns \<Rightarrow> (Price n, True))"

definition GetBestAskPrice :: "OrderBook \<Rightarrow> rat \<times> bool" where
  "GetBestAskPrice ob = (case asks ob of [] \<Rightarrow> (0, False) | n # ns \<Rightarrow> (Price n, True))"

section \<open>Trades and the global counters\<close>

text \<open>The package-level counters \<open>tradeIDCounter\<close> and \<open>executionCounter\<close>.\<close>

record Counters =
  tradeIDCounter :: "64 word"
  executionCounter :: "64 word"

text \<open>\<open>min\<close> of matching.go.\<close>

definition min_f64 :: "rat \<Rightarrow> rat \<Rightarrow> rat" where
  "min_f64 a b = (if a < b then a else b)"

text \<open>\<open>generateTradeID\<close>: \<open>atomic.AddUint64\<close> returns the incremented value.\<close>

definition generateTradeID :: "Counters \<Rightarrow> 64 word \<times> Counters" where
  "generateTradeID c = (tradeIDCounter c + 1, c\<lparr>tradeIDCounter := tradeIDCounter c + 1\<rparr>)"

text \<open>\<open>createTradeDraft\<close> (and the identical \<open>createTrade\<close> of the engine).\<close>

definition createTradeDraft ::
  "Counters \<Rightarrow> Order \<Rightarrow> Order \<Rightarrow> rat \<Rightarrow> rat \<Rightarrow> Trade \<times> Counters" where
  "createTradeDraft c maker taker price qty =
     (let (tid, c1) = generateTradeID c;
          c2 = c1\<lparr>executionCounter := executionCounter c1 + 1\<rparr>
      in (\<lparr>TradeID = tid, ExecutionID = executionCounter c2, Price_t = price,
           Quantity_t = qty, MakerOrderID = ID maker, TakerOrderID = ID taker,
           Instrument_t = Instrument maker, Side_t = Side taker\<rparr>, c2))"

section \<open>The matching loop (ProcessBuyOrder, ProcessSellOrder)\<close>

text \<open>
  The state the loop works on: the book (whose \<open>processedTrades\<close> channel receives the
  trades), the incoming order behind the pointer \<open>order\<close>, the local \<open>remainingQty\<close> and
  the global counters. The resting orders are reached through pointers as well: the
  order returned by \<open>GetBestAsk\<close> is the one stored in the head node, so an assignment
  to \<open>bestAsk.Remaining\<close> changes the head of the side in place. The incoming order is
  taken to be a different object from every resting order.
\<close>

record match_state =
  ob :: OrderBook
  order :: Order
  remainingQty :: rat
  ctr :: Counters

datatype 'a iter = Break 'a | Continue 'a

fun iter_state :: "'a iter \<Rightarrow> 'a" where
  "iter_state (Break s) = s"
| "iter_state (Continue s) = s"

text \<open>The write through the pointer held by the head node of a side.\<close>

definition store_head :: "Order list \<Rightarrow> Order \<Rightarrow> Order list" where
  "store_head ns x = (case ns of [] \<Rightarrow> [] | n # rest \<Rightarrow> x # rest)"

text \<open>
  One pass through the body of the \<open>for remainingQty > 0\<close> loop of \<open>ProcessBuyOrder\<close>
  (the same text as \<open>matchBuyOrder\<close>, which sends the trade on the engine's channel
  instead), the loop condition included. \<open>Break\<close> is the state with which the loop is
  left, \<open>Continue\<close> the state with which the condition is tested again. The arithmetic
  here is exact; \<open>buy_iter64\<close> and \<open>sell_iter64\<close> below are the same passes in \<open>float64\<close>.
\<close>

definition buy_iter :: "match_state \<Rightarrow> match_state iter" where
  "buy_iter s =
     (if \<not> (0 < remainingQty s) then Break s
      else case GetBestAsk (ob s) of
        None \<Rightarrow> Break s
      | Some bestAsk \<Rightarrow>
          if Type (order s) \<noteq> Market \<and> Price (order s) < Price bestAsk then Break s
          else
            let fillQty = min_f64 (remainingQty s) (Remaining bestAsk);
                fillPrice = Price bestAsk;
                (trade, c) = createTradeDraft (ctr s) bestAsk (order s) fillPrice fillQty;
                ob1 = (ob s)\<lparr>processedTrades := processedTrades (ob s) @ [trade]\<rparr>;
                remainingQty1 = remainingQty s - fillQty;
                bestAsk1 = bestAsk\<lparr>Remaining := Remaining bestAsk - fillQty\<rparr>;
                ob2 = ob1\<lparr>asks := store_head (asks ob1) bestAsk1\<rparr>;
                order1 = (order s)\<lparr>Remaining := Remaining (order s) - fillQty\<rparr>;
                ob3 = (if Remaining bestAsk1 \<le> 0 then removeAsk ob2 bestAsk1 else ob2);
                s1 = \<lparr>ob = ob3, order = order1, remainingQty = remainingQty1, ctr = c\<rparr>
            in if Type order1 = IOC \<and> 0 < remainingQty1 then Break s1 else Continue s1)"

definition sell_iter :: "match_state \<Rightarrow> match_state iter" where
  "sell_iter s =
     (if \<not> (0 < remainingQty s) then Break s
      else case GetBestBid (ob s) of
        None \<Rightarrow> Break s
      | Some bestBid \<Rightarrow>
          if Type (order s) \<noteq> Market \<and> Price (order s) > Price bestBid then Break s
          else
            let fillQty = min_f64 (remainingQty s) (Remaining bestBid);
                fillPrice = Price bestBid;
                (trade, c) = createTradeDraft (ctr s) bestBid (order s) fillPrice fillQty;
                ob1 = (ob s)\<lparr>processedTrades := processedTrades (ob s) @ [trade]\<rparr>;
                remainingQty1 = remainingQty s - fillQty;
                bestBid1 = bestBid\<lparr>Remaining := Remaining bestBid - fillQty\<rparr>;
                ob2 = ob1\<lparr>bids := store_head (bids ob1) bestBid1\<rparr>;
                order1 = (order s)\<lparr>Remaining := Remaining (order s) - fillQty\<rparr>;
                ob3 = (if Remaining bestBid1 \<le> 0 then removeBid ob2 bestBid1 else ob2);
                s1 = \<lparr>ob = ob3, order = order1, remainingQty = remainingQty1, ctr = c\<rparr>
            in if Type order1 = IOC \<and> 0 < remainingQty1 then Break s1 else Continue s1)"

text \<open>
  The loop, with fuel: \<open>None\<close> when the loop has not been left after \<open>n\<close> passes.
\<close>

fun buy_loop :: "nat \<Rightarrow> match_state \<Rightarrow> match_state option" where
  "buy_loop 0 s = None"
| "buy_loop (Suc n) s =
     (case buy_iter s of Break s1 \<Rightarrow> Some s1 | Continue s1 \<Rightarrow> buy_loop n s1)"

fun sell_loop :: "nat \<Rightarrow> match_state \<Rightarrow> match_state option" where
  "sell_loop 0 s = None"
| "sell_loop (Suc n) s =
     (case sell_iter s of Break s1 \<Rightarrow> Some s1 | Continue s1 \<Rightarrow> sell_loop n s1)"

text \<open>
  The state in which the loop condition of \<open>ProcessBuyOrder\<close> is tested for the \<open>n\<close>-th
  time after the first, when the loop gets that far.
\<close>

fun buy_at :: "nat \<Rightarrow> match_state \<Rightarrow> match_state option" where
  "buy_at 0 s = Some s"
| "buy_at (Suc n) s =
     (case buy_iter s of Break s1 \<Rightarrow> None | Continue s1 \<Rightarrow> buy_at n s1)"

definition start :: "OrderBook \<Rightarrow> Counters \<Rightarrow> Order \<Rightarrow> match_state" where
  "start b c o1 = \<lparr>ob = b, order = o1, remainingQty = Quantity o1, ctr = c\<rparr>"

text \<open>The statement after the loop: the order is appended to its own side unless it is
  filled, IOC or FOK.\<close>

definition rest_bid :: "match_state \<Rightarrow> match_state" where
  "rest_bid s =
     (if 0 < remainingQty s \<and> Type (order s) \<noteq> IOC \<and> Type (order s) \<noteq> FOK
      then s\<lparr>ob := AddBid (ob s) (order s)\<rparr> else s)"

definition rest_ask :: "match_state \<Rightarrow> match_state" where
  "rest_ask s =
     (if 0 < remainingQty s \<and> Type (order s) \<noteq> IOC \<and> Type (order s) \<noteq> FOK
      then s\<lparr>ob := AddAsk (ob s) (order s)\<rparr> else s)"

definition ProcessBuyOrder ::
  "nat \<Rightarrow> OrderBook \<Rightarrow> Counters \<Rightarrow> Order \<Rightarrow> match_state option" where
  "ProcessBuyOrder fuel b c o1 = map_option rest_bid (buy_loop fuel (start b c o1))"

definition ProcessSellOrder ::
  "nat \<Rightarrow> OrderBook \<Rightarrow> Counters \<Rightarrow> Order \<Rightarrow> match_state option" where
  "ProcessSellOrder fuel b c o1 = map_option rest_ask (sell_loop fuel (start b c o1))"

section \<open>Matching engine (matching.go)\<close>

text \<open>
  The first draft of the engine in matching.go keeps the registered books in a
  \<open>sync.Map\<close> from instrument to \<open>*OrderBook\<close> and hands an order to its book through
  the book's \<open>incomingOrders\<close> channel. A panic of the Go runtime is a value of the
  model.
\<close>

datatype panic = NilPointerDereference

record MatchingEngine =
  orderBooks :: "string \<rightharpoonup> OrderBook"
  incoming :: "Order list"
  trades :: "Trade list"

definition NewMatchingEngine :: MatchingEngine where
  "NewMatchingEngine = \<lparr>orderBooks = Map.empty, incoming = [], trades = []\<rparr>"

definition RegisterOrderBook :: "MatchingEngine \<Rightarrow> string \<Rightarrow> OrderBook \<Rightarrow> MatchingEngine" where
  "RegisterOrderBook m instrument book = m\<lparr>orderBooks := (orderBooks m)(instrument \<mapsto> book)\<rparr>"

text \<open>\<open>SubmitOrder\<close> has no result: it only sends the order on \<open>incoming\<close>.\<close>

definition SubmitOrder :: "MatchingEngine \<Rightarrow> Order \<Rightarrow> MatchingEngine" where
  "SubmitOrder m order1 = m\<lparr>incoming := incoming m @ [order1]\<rparr>"

text \<open>\<open>getOrderBook\<close> of the first draft: \<open>None\<close> stands for the nil it returns when the
  instrument is not in the map.\<close>

definition getOrderBook :: "MatchingEngine \<Rightarrow> string \<Rightarrow> OrderBook option" where
  "getOrderBook m instrument = orderBooks m instrument"

text \<open>\<open>matchOrder\<close> of the first draft sends on \<open>book.incomingOrders\<close> without testing
  \<open>book\<close>: reading the field of a nil \<open>*OrderBook\<close> panics.\<close>

definition matchOrder :: "MatchingEngine \<Rightarrow> Order \<Rightarrow> panic + MatchingEngine" where
  "matchOrder m order1 =
     (case getOrderBook m (Instrument order1) of
        None \<Rightarrow> Inl NilPointerDereference
      | Some book \<Rightarrow>
          Inr (m\<lparr>orderBooks := (orderBooks m)
                 (Instrument order1 \<mapsto> book\<lparr>incomingOrders := incomingOrders book @ [order1]\<rparr>)\<rparr>))"

text \<open>\<open>getOrderBook\<close> of the second and third draft creates and registers a book for an
  instrument that has none.\<close>

definition getOrderBook_lazy :: "MatchingEngine \<Rightarrow> string \<Rightarrow> OrderBook \<times> MatchingEngine" where
  "getOrderBook_lazy m instrument =
     (case orderBooks m instrument of
        Some book \<Rightarrow> (book, m)
      | None \<Rightarrow> (NewOrderBook, m\<lparr>orderBooks := (orderBooks m)(instrument \<mapsto> NewOrderBook)\<rparr>))"

section \<open>Snapshot manager\<close>

text \<open>
  \<open>Timestamp\<close> (the wall clock) is left out of the snapshot. \<open>Orders\<close>, \<open>BidOrders\<close> and
  \<open>AskOrders\<close> are Go \<open>int\<close>s; no claim below depends on their width. The field names
  carry a suffix where they would clash with the fields of \<open>Order\<close>.
\<close>

record PriceLevel =
  Price_l :: rat
  Quantity_l :: rat
  Orders :: int

record SnapshotStats =
  TotalBidQuantity :: rat
  TotalAskQuantity :: rat
  BidOrders :: int
  AskOrders :: int
  Spread :: rat
  MidPrice :: rat

record OrderBookSnapshot =
  Instrument_s :: string
  Sequence :: "64 word"
  Bids :: "PriceLevel list"
  Asks :: "PriceLevel list"
  Stats :: SnapshotStats

text \<open>
  The manager holds its books and its published snapshots behind two atomic pointers to
  maps, and the counter \<open>sequenceID\<close>, a \<open>uint64\<close>. (\<open>TakeSnapshots\<close> reads the book map
  through a pointer cast to a map of book values rather than of book pointers; the model
  takes the map as the one that \<open>RegisterOrderBook\<close> stored.)
\<close>

record SnapshotManager =
  sm_orderBooks :: "string \<rightharpoonup> OrderBook"
  snapshots :: "string \<rightharpoonup> OrderBookSnapshot"
  sequenceID :: "64 word"

definition zero_stats :: SnapshotStats where
  "zero_stats = \<lparr>TotalBidQuantity = 0, TotalAskQuantity = 0, BidOrders = 0, AskOrders = 0,
     Spread = 0, MidPrice = 0\<rparr>"

definition NewSnapshotManager :: SnapshotManager where
  "NewSnapshotManager = \<lparr>sm_orderBooks = Map.empty, snapshots = Map.empty, sequenceID = 0\<rparr>"

definition sm_RegisterOrderBook ::
  "SnapshotManager \<Rightarrow> string \<Rightarrow> OrderBook \<Rightarrow> SnapshotManager" where
  "sm_RegisterOrderBook sm instrument book =
     sm\<lparr>sm_orderBooks := (sm_orderBooks sm)(instrument \<mapsto> book)\<rparr>"

text \<open>\<open>GetMarketDepth\<close>: the source allocates two empty slices of capacity \<open>level\<close> and
  returns them unfilled (its body ends in a TODO).\<close>

definition GetMarketDepth :: "OrderBook \<Rightarrow> int \<Rightarrow> OrderBookSnapshot" where
  "GetMarketDepth book level =
     \<lparr>Instrument_s = [], Sequence = 0, Bids = [], Asks = [], Stats = zero_stats\<rparr>"

text \<open>\<open>calculateStats\<close>: the two range loops, then spread and mid price when both sides
  have a level.\<close>

definition add_bid_level :: "SnapshotStats \<Rightarrow> PriceLevel \<Rightarrow> SnapshotStats" where
  "add_bid_level st bid =
     st\<lparr>TotalBidQuantity := TotalBidQuantity st + Quantity_l bid,
        BidOrders := BidOrders st + Orders bid\<rparr>"

definition add_ask_level :: "SnapshotStats \<Rightarrow> PriceLevel \<Rightarrow> SnapshotStats" where
  "add_ask_level st ask =
     st\<lparr>TotalAskQuantity := TotalAskQuantity st + Quantity_l ask,
        AskOrders := AskOrders st + Orders ask\<rparr>"

definition calculateStats :: "OrderBookSnapshot \<Rightarrow> SnapshotStats" where
  "calculateStats depth =
     (let st1 = foldl add_bid_level zero_stats (Bids depth);
          st2 = foldl add_ask_level st1 (Asks depth)
      in case (Bids depth, Asks depth) of
           (bid # bs, ask # as) \<Rightarrow>
             st2\<lparr>Spread := Price_l ask - Price_l bid,
                 MidPrice := (Price_l bid + Price_l ask) / 2\<rparr>
         | _ \<Rightarrow> st2)"

text \<open>\<open>takeSnapshot\<close>: the sequence number is the value \<open>atomic.AddUint64\<close> returns, the
  incremented counter.\<close>

definition takeSnapshot ::
  "SnapshotManager \<Rightarrow> string \<Rightarrow> OrderBook \<Rightarrow> OrderBookSnapshot \<times> SnapshotManager" where
  "takeSnapshot sm instrument book =
     (let depth = GetMarketDepth book 100;
          stats = calculateStats depth;
          sm1 = sm\<lparr>sequenceID := sequenceID sm + 1\<rparr>
      in (\<lparr>Instrument_s = instrument, Sequence = sequenceID sm1, Bids = Bids depth,
           Asks = Asks depth, Stats = stats\<rparr>, sm1))"

text \<open>
  \<open>TakeSnapshots\<close>: one \<open>takeSnapshot\<close> per registered book, collected in a fresh map that
  replaces the published one. Go leaves the order in which \<open>range\<close> visits a map open;
  it is the parameter \<open>ks\<close>, the instruments in the order visited.
\<close>

fun snapshot_books ::
  "(string \<rightharpoonup> OrderBook) \<Rightarrow> string list \<Rightarrow> (string \<rightharpoonup> OrderBookSnapshot) \<Rightarrow> SnapshotManager
     \<Rightarrow> (string \<rightharpoonup> OrderBookSnapshot) \<times> SnapshotManager" where
  "snapshot_books books [] newSnapshots sm = (newSnapshots, sm)"
| "snapshot_books books (instrument # ks) newSnapshots sm =
     (case books instrument of
        None \<Rightarrow> snapshot_books books ks newSnapshots sm
      | Some book \<Rightarrow>
          (let (snapshot, sm1) = takeSnapshot sm instrument book
           in snapshot_books books ks (newSnapshots(instrument \<mapsto> snapshot)) sm1))"

definition TakeSnapshots :: "string list \<Rightarrow> SnapshotManager \<Rightarrow> SnapshotManager" where
  "TakeSnapshots ks sm =
     (let (newSnapshots, sm1) = snapshot_books (sm_orderBooks sm) ks Map.empty sm
      in sm1\<lparr>snapshots := newSnapshots\<rparr>)"

section \<open>Example values\<close>

definition mk_order ::
  "64 word \<Rightarrow> OrderSide \<Rightarrow> OrderType \<Rightarrow> rat \<Rightarrow> rat \<Rightarrow> Order" where
  "mk_order i sd ty p q =
     \<lparr>ID = i, Price = p, Quantity = q, Remaining = q, Side = sd, Type = ty,
      Instrument = ''BTC-USD'', Status = New\<rparr>"

definition no_trades :: Counters where
  "no_trades = \<lparr>tradeIDCounter = 0, executionCounter = 0\<rparr>"

text \<open>A book with one resting ask: id 1, 4 units at 100.\<close>

definition book_ask4 :: OrderBook where
  "book_ask4 = AddAsk NewOrderBook (mk_order 1 Sell Limit 100 4)"

text \<open>A book with one resting bid: id 1, 4 units at 100.\<close>

definition book_bid4 :: OrderBook where
  "book_bid4 = AddBid NewOrderBook (mk_order 1 Buy Limit 100 4)"

text \<open>A book with two resting asks of 2 units each at 100.\<close>

definition book_ask2_2 :: OrderBook where
  "book_ask2_2 =
     AddAsk (AddAsk NewOrderBook (mk_order 1 Sell Limit 100 2)) (mk_order 3 Sell Limit 100 2)"

text \<open>The engine as \<open>main\<close> sets it up: one empty book for each supported instrument.\<close>

definition main_engine :: MatchingEngine where
  "main_engine =
     RegisterOrderBook (RegisterOrderBook (RegisterOrderBook (RegisterOrderBook
       NewMatchingEngine ''BTC-USD'' NewOrderBook) ''ETH-USD'' NewOrderBook)
       ''AAPL'' NewOrderBook) ''GOOGL'' NewOrderBook"

text \<open>A manager with one registered book, and the same manager two increments before its
  counter reaches the largest \<open>uint64\<close>.\<close>

definition sm_btc :: SnapshotManager where
  "sm_btc = sm_RegisterOrderBook NewSnapshotManager ''BTC-USD'' NewOrderBook"

definition sm_wrap :: SnapshotManager where
  "sm_wrap = sm_btc\<lparr>sequenceID := 18446744073709551614\<rparr>"

section \<open>The matching loop in float64 arithmetic\<close>

text \<open>
  The loop above computes with exact rationals. That agrees with the source as long as
  every value is a number that \<open>float64\<close> holds and subtracts exactly, as the small
  integers of the examples are. The source itself computes in IEEE 754 binary64: a
  difference is rounded to the nearest representable value, and every ordered comparison
  with NaN is false. This section models the same loop with that arithmetic.

  A \<open>float64\<close> is a finite value, one of the two infinities, or NaN. A finite value is
  identified with the rational number it denotes, so the two zeros are one value and so
  are all NaNs; the engine compares and subtracts only, which does not tell them apart.
\<close>

datatype f64 = Fin rat | PInf | NInf | NaN

text \<open>The comparisons \<open><\<close> and \<open><=\<close> of Go on \<open>float64\<close>; \<open>a > b\<close> is \<open>b < a\<close>.\<close>

fun f_lt :: "f64 \<Rightarrow> f64 \<Rightarrow> bool" where
  "f_lt NaN b = False"
| "f_lt a NaN = False"
| "f_lt (Fin x) (Fin y) = (x < y)"
| "f_lt (Fin x) PInf = True"
| "f_lt (Fin x) NInf = False"
| "f_lt PInf b = False"
| "f_lt NInf NInf = False"
| "f_lt NInf b = True"

definition f_le :: "f64 \<Rightarrow> f64 \<Rightarrow> bool" where
  "f_le a b = (a \<noteq> NaN \<and> b \<noteq> NaN \<and> (a = b \<or> f_lt a b))"

text \<open>
  Rounding a rational to \<open>float64\<close>, to nearest with ties to even: \<open>ilog2 x\<close> is the
  exponent of the leading bit of a positive \<open>x\<close>; the last place of a 53-bit significand
  then has the exponent \<open>e\<close>, not below -1074 (the subnormal range); the value is
  rounded to a multiple of \<open>2^e\<close>; and a result that reaches \<open>2^1024\<close> is an infinity.
\<close>

definition ilog2 :: "rat \<Rightarrow> int" where
  "ilog2 x = (let (a, b) = quotient_of x; d = bitlen a - bitlen b
              in if 2 powi d \<le> x then d else d - 1)"

definition round_even :: "rat \<Rightarrow> int" where
  "round_even y = (let f = \<lfloor>y\<rfloor>; r = y - of_int f
                   in if r < 1 / 2 then f else if 1 / 2 < r then f + 1
                      else if even f then f else f + 1)"

definition round64 :: "rat \<Rightarrow> f64" where
  "round64 x = (if x = 0 then Fin 0
     else let e = max (ilog2 \<bar>x\<bar> - 52) (- 1074);
              n = round_even (if 0 \<le> e then x / 2 ^ nat e else x * 2 ^ nat (- e));
              r = (if 0 \<le> e then of_int n * 2 ^ nat e else of_int n / 2 ^ nat (- e))
          in if 2 ^ 1024 \<le> r then PInf else if r \<le> - (2 ^ 1024) then NInf else Fin r)"

text \<open>The subtraction \<open>a - b\<close> of Go on \<open>float64\<close>.\<close>

fun f_sub :: "f64 \<Rightarrow> f64 \<Rightarrow> f64" where
  "f_sub NaN b = NaN"
| "f_sub a NaN = NaN"
| "f_sub (Fin x) (Fin y) = round64 (x - y)"
| "f_sub (Fin x) PInf = NInf"
| "f_sub (Fin x) NInf = PInf"
| "f_sub PInf PInf = NaN"
| "f_sub PInf b = PInf"
| "f_sub NInf NInf = NaN"
| "f_sub NInf b = NInf"

text \<open>\<open>min\<close> of matching.go on \<open>float64\<close>.\<close>

definition min64 :: "f64 \<Rightarrow> f64 \<Rightarrow> f64" where
  "min64 a b = (if f_lt a b then a else b)"

text \<open>\<open>models.Order\<close>, \<open>models.Trade\<close> and the book with \<open>float64\<close> prices and
  quantities; the field names carry the suffix \<open>64\<close>.\<close>

record Order64 =
  ID64 :: "64 word"
  Price64 :: f64
  Quantity64 :: f64
  Remaining64 :: f64
  Side64 :: OrderSide
  Type64 :: OrderType
  Instrument64 :: string
  Status64 :: OrderStatus

record Trade64 =
  TradeID64 :: "64 word"
  ExecutionID64 :: "64 word"
  TradePrice64 :: f64
  TradeQuantity64 :: f64
  MakerOrderID64 :: "64 word"
  TakerOrderID64 :: "64 word"
  TradeInstrument64 :: string
  TradeSide64 :: OrderSide

record OrderBook64 =
  bids64 :: "Order64 list"
  asks64 :: "Order64 list"
  incomingOrders64 :: "Order64 list"
  processedTrades64 :: "Trade64 list"

text \<open>\<open>(*Order).Validate\<close>: the price is checked for a Limit order only; \<open>o.Price != o.Price\<close>
  holds of NaN and of nothing else. \<open>None\<close> stands for the nil error.\<close>

datatype validation_error = ErrInvalidQuantity | ErrInvalidPrice | ErrMissingInstrument

definition Validate :: "Order64 \<Rightarrow> validation_error option" where
  "Validate o1 =
     (if f_le (Quantity64 o1) (Fin 0) then Some ErrInvalidQuantity
      else if Type64 o1 = Limit \<and> (f_le (Price64 o1) (Fin 0) \<or> Price64 o1 = NaN)
        then Some ErrInvalidPrice
      else if length (Instrument64 o1) = 0 then Some ErrMissingInstrument
      else None)"

definition GetBestBid64 :: "OrderBook64 \<Rightarrow> Order64 option" where
  "GetBestBid64 b = (case bids64 b of [] \<Rightarrow> None | n # ns \<Rightarrow> Some n)"

definition GetBestAsk64 :: "OrderBook64 \<Rightarrow> Order64 option" where
  "GetBestAsk64 b = (case asks64 b of [] \<Rightarrow> None | n # ns \<Rightarrow> Some n)"

definition removeBid64 :: "OrderBook64 \<Rightarrow> Order64 \<Rightarrow> OrderBook64" where
  "removeBid64 b order1 = b"

definition removeAsk64 :: "OrderBook64 \<Rightarrow> Order64 \<Rightarrow> OrderBook64" where
  "removeAsk64 b order1 = b"

definition store_head64 :: "Order64 list \<Rightarrow> Order64 \<Rightarrow> Order64 list" where
  "store_head64 ns x = (case ns of [] \<Rightarrow> [] | n # rest \<Rightarrow> x # rest)"

definition createTradeDraft64 ::
  "Counters \<Rightarrow> Order64 \<Rightarrow> Order64 \<Rightarrow> f64 \<Rightarrow> f64 \<Rightarrow> Trade64 \<times> Counters" where
  "createTradeDraft64 c maker taker price qty =
     (let (tid, c1) = generateTradeID c;
          c2 = c1\<lparr>executionCounter := executionCounter c1 + 1\<rparr>
      in (\<lparr>TradeID64 = tid, ExecutionID64 = executionCounter c2, TradePrice64 = price,
           TradeQuantity64 = qty, MakerOrderID64 = ID64 maker, TakerOrderID64 = ID64 taker,
           TradeInstrument64 = Instrument64 maker, TradeSide64 = Side64 taker\<rparr>, c2))"

record match_state64 =
  ob64 :: OrderBook64
  order64 :: Order64
  remainingQty64 :: f64
  ctr64 :: Counters

text \<open>One pass through the loop body of \<open>ProcessBuyOrder\<close> and of \<open>ProcessSellOrder\<close>, as
  \<open>buy_iter\<close> and \<open>sell_iter\<close> above, statement by statement in \<open>float64\<close>.\<close>

definition buy_iter64 :: "match_state64 \<Rightarrow> match_state64 iter" where
  "buy_iter64 s =
     (if \<not> f_lt (Fin 0) (remainingQty64 s) then Break s
      else case GetBestAsk64 (ob64 s) of
        None \<Rightarrow> Break s
      | Some bestAsk \<Rightarrow>
          if Type64 (order64 s) \<noteq> Market \<and> f_lt (Price64 (order64 s)) (Price64 bestAsk)
          then Break s
          else
            let fillQty = min64 (remainingQty64 s) (Remaining64 bestAsk);
                fillPrice = Price64 bestAsk;
                (trade, c) = createTradeDraft64 (ctr64 s) bestAsk (order64 s) fillPrice fillQty;
                ob1 = (ob64 s)\<lparr>processedTrades64 := processedTrades64 (ob64 s) @ [trade]\<rparr>;
                remainingQty1 = f_sub (remainingQty64 s) fillQty;
                bestAsk1 = bestAsk\<lparr>Remaining64 := f_sub (Remaining64 bestAsk) fillQty\<rparr>;
                ob2 = ob1\<lparr>asks64 := store_head64 (asks64 ob1) bestAsk1\<rparr>;
                order1 = (order64 s)\<lparr>Remaining64 := f_sub (Remaining64 (order64 s)) fillQty\<rparr>;
                ob3 = (if f_le (Remaining64 bestAsk1) (Fin 0) then removeAsk64 ob2 bestAsk1
                       else ob2);
                s1 = \<lparr>ob64 = ob3, order64 = order1, remainingQty64 = remainingQty1, ctr64 = c\<rparr>
            in if Type64 order1 = IOC \<and> f_lt (Fin 0) remainingQty1
               then Break s1 else Continue s1)"

definition sell_iter64 :: "match_state64 \<Rightarrow> match_state64 iter" where
  "sell_iter64 s =
     (if \<not> f_lt (Fin 0) (remainingQty64 s) then Break s
      else case GetBestBid64 (ob64 s) of
        None \<Rightarrow> Break s
      | Some bestBid \<Rightarrow>
          if Type64 (order64 s) \<noteq> Market \<and> f_lt (Price64 bestBid) (Price64 (order64 s))
          then Break s
          else
            let fillQty = min64 (remainingQty64 s) (Remaining64 bestBid);
                fillPrice = Price64 bestBid;
                (trade, c) = createTradeDraft64 (ctr64 s) bestBid (order64 s) fillPrice fillQty;
                ob1 = (ob64 s)\<lparr>processedTrades64 := processedTrades64 (ob64 s) @ [trade]\<rparr>;
                remainingQty1 = f_sub (remainingQty64 s) fillQty;
                bestBid1 = bestBid\<lparr>Remaining64 := f_sub (Remaining64 bestBid) fillQty\<rparr>;
                ob2 = ob1\<lparr>bids64 := store_head64 (bids64 ob1) bestBid1\<rparr>;
                order1 = (order64 s)\<lparr>Remaining64 := f_sub (Remaining64 (order64 s)) fillQty\<rparr>;
                ob3 = (if f_le (Remaining64 bestBid1) (Fin 0) then removeBid64 ob2 bestBid1
                       else ob2);
                s1 = \<lparr>ob64 = ob3, order64 = order1, remainingQty64 = remainingQty1, ctr64 = c\<rparr>
            in if Type64 order1 = IOC \<and> f_lt (Fin 0) remainingQty1
               then Break s1 else Continue s1)"

text \<open>The state in which the loop condition is tested after \<open>n\<close> passes, when the loop
  gets that far, and the state in which \<open>ProcessBuyOrder\<close> or \<open>ProcessSellOrder\<close> enters
  the loop.\<close>

fun buy_at64 :: "nat \<Rightarrow> match_state64 \<Rightarrow> match_state64 option" where
  "buy_at64 0 s = Some s"
| "buy_at64 (Suc n) s =
     (case buy_iter64 s of Break s1 \<Rightarrow> None | Continue s1 \<Rightarrow> buy_at64 n s1)"

fun sell_at64 :: "nat \<Rightarrow> match_state64 \<Rightarrow> match_state64 option" where
  "sell_at64 0 s = Some s"
| "sell_at64 (Suc n) s =
     (case sell_iter64 s of Break s1 \<Rightarrow> None | Continue s1 \<Rightarrow> sell_at64 n s1)"

definition start64 :: "OrderBook64 \<Rightarrow> Counters \<Rightarrow> Order64 \<Rightarrow> match_state64" where
  "start64 b c o1 = \<lparr>ob64 = b, order64 = o1, remainingQty64 = Quantity64 o1, ctr64 = c\<rparr>"

text \<open>Example values in \<open>float64\<close>: an order, and a book with one resting order.\<close>

definition mk_order64 ::
  "64 word \<Rightarrow> OrderSide \<Rightarrow> OrderType \<Rightarrow> f64 \<Rightarrow> f64 \<Rightarrow> Order64" where
  "mk_order64 i sd ty p q =
     \<lparr>ID64 = i, Price64 = p, Quantity64 = q, Remaining64 = q, Side64 = sd, Type64 = ty,
      Instrument64 = ''BTC-USD'', Status64 = New\<rparr>"

definition book_ask64 :: "Order64 \<Rightarrow> OrderBook64" where
  "book_ask64 m = \<lparr>bids64 = [], asks64 = [m], incomingOrders64 = [], processedTrades64 = []\<rparr>"

definition book_bid64 :: "Order64 \<Rightarrow> OrderBook64" where
  "book_bid64 m = \<lparr>bids64 = [m], asks64 = [], incomingOrders64 = [], processedTrades64 = []\<rparr>"

section \<open>Facts about one pass of the loop\<close>

text \<open>The equations that evaluate a run on a concrete book.\<close>

lemmas buy_eval = ProcessBuyOrder_def start_def buy_iter_def GetBestAsk_def AddAsk_def AddBid_def
  NewOrderBook_def mk_order_def min_f64_def createTradeDraft_def generateTradeID_def store_head_def
  removeAsk_def rest_bid_def no_trades_def book_ask4_def Let_def

lemmas sell_eval = ProcessSellOrder_def start_def sell_iter_def GetBestBid_def AddAsk_def AddBid_def
  NewOrderBook_def mk_order_def min_f64_def createTradeDraft_def generateTradeID_def store_head_def
  removeBid_def rest_ask_def no_trades_def Let_def







section \<open>Facts about the loop\<close>



text \<open>
  A head whose \<open>Remaining\<close> is 0 stays the head, since \<open>removeAsk\<close> does nothing: a
  crossing order that is not IOC and still wants quantity goes through the body again
  and again, in the same state up to the trades sent and the counters.
\<close>

lemma buy_iter_spin:
  assumes "GetBestAsk (ob s) = Some m" "Remaining m = 0" "0 < remainingQty s"
    "Type (order s) \<noteq> IOC" "Type (order s) = Market \<or> Price m \<le> Price (order s)"
  shows "\<exists>s1. buy_iter s = Continue s1 \<and> GetBestAsk (ob s1) = Some m \<and>
     remainingQty s1 = remainingQty s \<and> order s1 = order s"
  using assms
  by (auto simp: buy_iter_def GetBestAsk_def min_f64_def createTradeDraft_def generateTradeID_def
      store_head_def removeAsk_def Let_def split: list.splits)

lemma buy_loop_spin:
  assumes "GetBestAsk (ob s) = Some m" "Remaining m = 0" "0 < remainingQty s"
    "Type (order s) \<noteq> IOC" "Type (order s) = Market \<or> Price m \<le> Price (order s)"
  shows "buy_loop n s = None"
  using assms
proof (induction n arbitrary: s)
  case 0
  then show ?case by simp
next
  case (Suc n)
  from buy_iter_spin [OF Suc.prems] obtain s1 where
    s1: "buy_iter s = Continue s1" "GetBestAsk (ob s1) = Some m"
      "remainingQty s1 = remainingQty s" "order s1 = order s" by blast
  have "buy_loop n s1 = None"
    using Suc.IH [of s1] s1 Suc.prems by simp
  with s1 show ?case by simp
qed

text \<open>An IOC order of 10 units that crosses a head with 4 units remaining.\<close>

lemma buy_ioc_head:
  assumes "Type o1 = IOC" "Quantity o1 = 10" "Remaining o1 = 10" "Remaining m = 4"
    "asks b = m # rest" "Price m \<le> Price o1"
  shows "ProcessBuyOrder (Suc n) b c o1 =
     Some \<lparr>ob = b\<lparr>processedTrades := processedTrades b @ [fst (createTradeDraft c m o1 (Price m) 4)],
                  asks := m\<lparr>Remaining := 0\<rparr> # rest\<rparr>,
           order = o1\<lparr>Remaining := 6\<rparr>, remainingQty = 6,
           ctr = snd (createTradeDraft c m o1 (Price m) 4)\<rparr>"
  using assms
  by (simp add: ProcessBuyOrder_def start_def buy_iter_def GetBestAsk_def min_f64_def
      store_head_def removeAsk_def rest_bid_def Let_def split_beta)

lemma sell_ioc_head:
  assumes "Type o1 = IOC" "Quantity o1 = 10" "Remaining o1 = 10" "Remaining m = 4"
    "bids b = m # rest" "Price o1 \<le> Price m"
  shows "ProcessSellOrder (Suc n) b c o1 =
     Some \<lparr>ob = b\<lparr>processedTrades := processedTrades b @ [fst (createTradeDraft c m o1 (Price m) 4)],
                  bids := m\<lparr>Remaining := 0\<rparr> # rest\<rparr>,
           order = o1\<lparr>Remaining := 6\<rparr>, remainingQty = 6,
           ctr = snd (createTradeDraft c m o1 (Price m) 4)\<rparr>"
  using assms
  by (simp add: ProcessSellOrder_def start_def sell_iter_def GetBestBid_def min_f64_def
      store_head_def removeBid_def rest_ask_def Let_def split_beta)

lemma createTradeDraft_fields:
  "Quantity_t (fst (createTradeDraft c m o1 p q)) = q"
  "Price_t (fst (createTradeDraft c m o1 p q)) = p"
  "MakerOrderID (fst (createTradeDraft c m o1 p q)) = ID m"
  "TakerOrderID (fst (createTradeDraft c m o1 p q)) = ID o1"
  by (simp_all add: createTradeDraft_def generateTradeID_def Let_def)

section \<open>Facts about the snapshot manager\<close>

lemma takeSnapshot_fields:
  "Bids (fst (takeSnapshot sm i b)) = Bids (GetMarketDepth b 100)"
  "Asks (fst (takeSnapshot sm i b)) = Asks (GetMarketDepth b 100)"
  "Stats (fst (takeSnapshot sm i b)) = calculateStats (GetMarketDepth b 100)"
  "Sequence (fst (takeSnapshot sm i b)) = sequenceID sm + 1"
  "sequenceID (snd (takeSnapshot sm i b)) = sequenceID sm + 1"
  "sm_orderBooks (snd (takeSnapshot sm i b)) = sm_orderBooks sm"
  by (simp_all add: takeSnapshot_def Let_def)

lemma unat_plus_one:
  fixes x :: "64 word"
  assumes "unat x + 1 < 2 ^ 64"
  shows "unat (x + 1) = unat x + 1"
  using assms by (simp add: unat_word_ariths)

lemma snapshot_books_facts:
  "snapshot_books books ks acc sm = (acc1, sm1) \<Longrightarrow>
   unat (sequenceID sm) + length ks < 2 ^ 64 \<Longrightarrow>
   unat (sequenceID sm) \<le> unat (sequenceID sm1)
   \<and> unat (sequenceID sm1) \<le> unat (sequenceID sm) + length ks
   \<and> sm_orderBooks sm1 = sm_orderBooks sm
   \<and> (\<forall>i. i \<notin> set ks \<longrightarrow> acc1 i = acc i)
   \<and> (\<forall>i b. i \<in> set ks \<longrightarrow> books i = Some b \<longrightarrow>
        (\<exists>x. acc1 i = Some x
           \<and> Bids x = Bids (GetMarketDepth b 100)
           \<and> Asks x = Asks (GetMarketDepth b 100)
           \<and> Stats x = calculateStats (GetMarketDepth b 100)
           \<and> unat (sequenceID sm) < unat (Sequence x)
           \<and> unat (Sequence x) \<le> unat (sequenceID sm1)))"
proof (induction ks arbitrary: acc sm)
  case Nil
  then show ?case by simp
next
  case (Cons k ks)
  show ?case
  proof (cases "books k")
    case None
    with Cons.prems have rec: "snapshot_books books ks acc sm = (acc1, sm1)"
      and bound: "unat (sequenceID sm) + length ks < 2 ^ 64" by simp_all
    from Cons.IH [OF rec bound] None show ?thesis by auto
  next
    case (Some bk)
    obtain x0 sm0 where t: "takeSnapshot sm k bk = (x0, sm0)" by (cases "takeSnapshot sm k bk")
    from Cons.prems(2) have "unat (sequenceID sm) + 1 < 2 ^ 64" by simp
    then have u: "unat (sequenceID sm + 1) = unat (sequenceID sm) + 1" by (rule unat_plus_one)
    from t takeSnapshot_fields [of sm k bk] have x0:
      "Bids x0 = Bids (GetMarketDepth bk 100)" "Asks x0 = Asks (GetMarketDepth bk 100)"
      "Stats x0 = calculateStats (GetMarketDepth bk 100)" "Sequence x0 = sequenceID sm + 1"
      "sequenceID sm0 = sequenceID sm + 1" "sm_orderBooks sm0 = sm_orderBooks sm"
      by simp_all
    from Cons.prems(1) Some t
    have rec: "snapshot_books books ks (acc(k \<mapsto> x0)) sm0 = (acc1, sm1)" by simp
    from Cons.prems(2) x0 u have bound: "unat (sequenceID sm0) + length ks < 2 ^ 64" by simp
    note ih = Cons.IH [OF rec bound]
    have a: "unat (sequenceID sm) \<le> unat (sequenceID sm1)"
      and b: "unat (sequenceID sm1) \<le> unat (sequenceID sm) + length (k # ks)"
      and c: "sm_orderBooks sm1 = sm_orderBooks sm"
      using ih x0 u by simp_all
    have d: "\<forall>i. i \<notin> set (k # ks) \<longrightarrow> acc1 i = acc i"
      using ih by simp
    have e: "\<exists>x. acc1 i = Some x
           \<and> Bids x = Bids (GetMarketDepth b 100)
           \<and> Asks x = Asks (GetMarketDepth b 100)
           \<and> Stats x = calculateStats (GetMarketDepth b 100)
           \<and> unat (sequenceID sm) < unat (Sequence x)
           \<and> unat (Sequence x) \<le> unat (sequenceID sm1)"
      if i: "i \<in> set (k # ks)" and bi: "books i = Some b" for i b
    proof (cases "i \<in> set ks")
      case True
      with ih bi obtain x where "acc1 i = Some x"
        "Bids x = Bids (GetMarketDepth b 100)" "Asks x = Asks (GetMarketDepth b 100)"
        "Stats x = calculateStats (GetMarketDepth b 100)"
        "unat (sequenceID sm0) < unat (Sequence x)" "unat (Sequence x) \<le> unat (sequenceID sm1)"
        by blast
      with x0 u show ?thesis by simp
    next
      case False
      with i have ik: "i = k" by simp
      with False ih have "acc1 i = Some x0" by simp
      moreover from ik bi Some have "b = bk" by simp
      moreover from ih x0 u have "unat (Sequence x0) \<le> unat (sequenceID sm1)" by simp
      ultimately show ?thesis using x0 u by simp
    qed
    from a b c d e show ?thesis by blast
  qed
qed

lemma TakeSnapshots_facts:
  assumes "unat (sequenceID sm) + length ks < 2 ^ 64"
  shows "unat (sequenceID sm) \<le> unat (sequenceID (TakeSnapshots ks sm))"
    and "unat (sequenceID (TakeSnapshots ks sm)) \<le> unat (sequenceID sm) + length ks"
    and "sm_orderBooks (TakeSnapshots ks sm) = sm_orderBooks sm"
    and "i \<in> set ks \<Longrightarrow> sm_orderBooks sm i = Some b \<Longrightarrow>
        \<exists>x. snapshots (TakeSnapshots ks sm) i = Some x
           \<and> Bids x = Bids (GetMarketDepth b 100)
           \<and> Asks x = Asks (GetMarketDepth b 100)
           \<and> Stats x = calculateStats (GetMarketDepth b 100)
           \<and> unat (sequenceID sm) < unat (Sequence x)
           \<and> unat (Sequence x) \<le> unat (sequenceID (TakeSnapshots ks sm))"
proof -
  obtain acc1 sm1 where r: "snapshot_books (sm_orderBooks sm) ks Map.empty sm = (acc1, sm1)"
    by (cases "snapshot_books (sm_orderBooks sm) ks Map.empty sm")
  then have ts: "TakeSnapshots ks sm = sm1\<lparr>snapshots := acc1\<rparr>"
    by (simp add: TakeSnapshots_def)
  note f = snapshot_books_facts [OF r assms]
  from f ts show "unat (sequenceID sm) \<le> unat (sequenceID (TakeSnapshots ks sm))"
    and "unat (sequenceID (TakeSnapshots ks sm)) \<le> unat (sequenceID sm) + length ks"
    and "sm_orderBooks (TakeSnapshots ks sm) = sm_orderBooks sm"
    by simp_all
  show "\<exists>x. snapshots (TakeSnapshots ks sm) i = Some x
           \<and> Bids x = Bids (GetMarketDepth b 100)
           \<and> Asks x = Asks (GetMarketDepth b 100)
           \<and> Stats x = calculateStats (GetMarketDepth b 100)
           \<and> unat (sequenceID sm) < unat (Sequence x)
           \<and> unat (Sequence x) \<le> unat (sequenceID (TakeSnapshots ks sm))"
    if "i \<in> set ks" "sm_orderBooks sm i = Some b"
    using f ts that by simp
qed

section \<open>Facts about the loop in float64 arithmetic\<close>

text \<open>Two roundings: 6 is a \<open>float64\<close>; \<open>10^17 - 1\<close> is not, and its nearest neighbour is
  \<open>10^17\<close> (the spacing of \<open>float64\<close> values there is 16).\<close>

lemma round64_0: "round64 0 = Fin 0"
  by (simp add: round64_def)

lemma round64_6: "round64 6 = Fin 6"
proof -
  have "ilog2 6 = 2" by code_simp
  moreover have "round_even 6755399441055744 = 6755399441055744"
    by (simp add: round_even_def)
  ultimately show ?thesis by (simp add: round64_def Let_def)
qed

lemma round64_below_1e17: "round64 99999999999999999 = Fin 100000000000000000"
proof -
  have "ilog2 99999999999999999 = 56" by code_simp
  moreover have "round_even (99999999999999999 / 16) = 6250000000000000" by code_simp
  ultimately show ?thesis by (simp add: round64_def Let_def)
qed

lemma f_lt_total: "a \<noteq> NaN \<Longrightarrow> b \<noteq> NaN \<Longrightarrow> \<not> f_lt a b \<Longrightarrow> f_le b a"
  by (cases a; cases b) (auto simp: f_le_def)

lemma buy_iter64_remaining:
  "Remaining64 (order64 s) = remainingQty64 s \<Longrightarrow>
   Remaining64 (order64 (iter_state (buy_iter64 s))) = remainingQty64 (iter_state (buy_iter64 s))"
  by (simp add: buy_iter64_def createTradeDraft64_def generateTradeID_def removeAsk64_def Let_def
      split: option.splits)

lemma sell_iter64_remaining:
  "Remaining64 (order64 s) = remainingQty64 s \<Longrightarrow>
   Remaining64 (order64 (iter_state (sell_iter64 s))) = remainingQty64 (iter_state (sell_iter64 s))"
  by (simp add: sell_iter64_def createTradeDraft64_def generateTradeID_def removeBid64_def Let_def
      split: option.splits)

lemma buy_at64_remaining:
  "buy_at64 n s = Some s1 \<Longrightarrow> Remaining64 (order64 s) = remainingQty64 s \<Longrightarrow>
   Remaining64 (order64 s1) = remainingQty64 s1"
proof (induction n arbitrary: s)
  case 0
  then show ?case by simp
next
  case (Suc n)
  from Suc.prems(1) obtain s2 where c: "buy_iter64 s = Continue s2"
    and r: "buy_at64 n s2 = Some s1"
    by (auto split: iter.splits)
  from buy_iter64_remaining [OF Suc.prems(2)] c
  have "Remaining64 (order64 s2) = remainingQty64 s2" by simp
  from Suc.IH [OF r this] show ?case .
qed

lemma sell_at64_remaining:
  "sell_at64 n s = Some s1 \<Longrightarrow> Remaining64 (order64 s) = remainingQty64 s \<Longrightarrow>
   Remaining64 (order64 s1) = remainingQty64 s1"
proof (induction n arbitrary: s)
  case 0
  then show ?case by simp
next
  case (Suc n)
  from Suc.prems(1) obtain s2 where c: "sell_iter64 s = Continue s2"
    and r: "sell_at64 n s2 = Some s1"
    by (auto split: iter.splits)
  from sell_iter64_remaining [OF Suc.prems(2)] c
  have "Remaining64 (order64 s2) = remainingQty64 s2" by simp
  from Suc.IH [OF r this] show ?case .
qed

text \<open>What a pass that sends a trade does.\<close>

lemma buy_iter64_fill:
  assumes "processedTrades64 (ob64 (iter_state (buy_iter64 s))) \<noteq> processedTrades64 (ob64 s)"
  shows "\<exists>m t. GetBestAsk64 (ob64 s) = Some m
     \<and> (Type64 (order64 s) = Market \<or> \<not> f_lt (Price64 (order64 s)) (Price64 m))
     \<and> processedTrades64 (ob64 (iter_state (buy_iter64 s))) = processedTrades64 (ob64 s) @ [t]
     \<and> TradeQuantity64 t = min64 (remainingQty64 s) (Remaining64 m)
     \<and> TradePrice64 t = Price64 m
     \<and> order64 (iter_state (buy_iter64 s))
         = (order64 s)\<lparr>Remaining64 := f_sub (Remaining64 (order64 s)) (TradeQuantity64 t)\<rparr>
     \<and> GetBestAsk64 (ob64 (iter_state (buy_iter64 s)))
         = Some (m\<lparr>Remaining64 := f_sub (Remaining64 m) (TradeQuantity64 t)\<rparr>)"
proof (cases "GetBestAsk64 (ob64 s)")
  case None
  with assms show ?thesis by (simp add: buy_iter64_def split: if_splits)
next
  case (Some m)
  then obtain rest where a: "asks64 (ob64 s) = m # rest"
    by (auto simp: GetBestAsk64_def split: list.splits)
  from assms Some have run: "f_lt (Fin 0) (remainingQty64 s)"
    "\<not> (Type64 (order64 s) \<noteq> Market \<and> f_lt (Price64 (order64 s)) (Price64 m))"
    by (auto simp: buy_iter64_def split: if_splits)
  from Some a run show ?thesis
    by (auto simp: buy_iter64_def createTradeDraft64_def generateTradeID_def removeAsk64_def
        store_head64_def GetBestAsk64_def Let_def)
qed

lemma sell_iter64_fill:
  assumes "processedTrades64 (ob64 (iter_state (sell_iter64 s))) \<noteq> processedTrades64 (ob64 s)"
  shows "\<exists>m t. GetBestBid64 (ob64 s) = Some m
     \<and> (Type64 (order64 s) = Market \<or> \<not> f_lt (Price64 m) (Price64 (order64 s)))
     \<and> processedTrades64 (ob64 (iter_state (sell_iter64 s))) = processedTrades64 (ob64 s) @ [t]
     \<and> TradeQuantity64 t = min64 (remainingQty64 s) (Remaining64 m)
     \<and> TradePrice64 t = Price64 m
     \<and> order64 (iter_state (sell_iter64 s))
         = (order64 s)\<lparr>Remaining64 := f_sub (Remaining64 (order64 s)) (TradeQuantity64 t)\<rparr>
     \<and> GetBestBid64 (ob64 (iter_state (sell_iter64 s)))
         = Some (m\<lparr>Remaining64 := f_sub (Remaining64 m) (TradeQuantity64 t)\<rparr>)"
proof (cases "GetBestBid64 (ob64 s)")
  case None
  with assms show ?thesis by (simp add: sell_iter64_def split: if_splits)
next
  case (Some m)
  then obtain rest where a: "bids64 (ob64 s) = m # rest"
    by (auto simp: GetBestBid64_def split: list.splits)
  from assms Some have run: "f_lt (Fin 0) (remainingQty64 s)"
    "\<not> (Type64 (order64 s) \<noteq> Market \<and> f_lt (Price64 m) (Price64 (order64 s)))"
    by (auto simp: sell_iter64_def split: if_splits)
  from Some a run show ?thesis
    by (auto simp: sell_iter64_def createTradeDraft64_def generateTradeID_def removeBid64_def
        store_head64_def GetBestBid64_def Let_def)
qed

lemmas eval64 = start64_def buy_iter64_def sell_iter64_def GetBestAsk64_def GetBestBid64_def
  min64_def createTradeDraft64_def generateTradeID_def store_head64_def removeAsk64_def
  removeBid64_def mk_order64_def book_ask64_def book_bid64_def no_trades_def f_le_def
  Validate_def Let_def

section \<open>C1: ordering of a side\<close>

text \<open>
  C1. The claim is that each side stays sorted with the best price at the head, so that
  \<open>GetBestBid\<close>/\<open>GetBestBidPrice\<close> return the highest-priced resting bid. In the code
  \<open>AddBid\<close> appends behind the tail whatever the price: after inserting a bid at 99 and
  then a bid at 100 into an empty book, the head (and so the reported best bid) is the
  bid at 99, although the bid at 100 rests on the same side.
\<close>

theorem C1_best_bid_is_oldest_not_highest:
  "GetBestBid (AddBid (AddBid NewOrderBook (mk_order 1 Buy Limit 99 1)) (mk_order 2 Buy Limit 100 1))
     = Some (mk_order 1 Buy Limit 99 1)
   \<and> GetBestBidPrice (AddBid (AddBid NewOrderBook (mk_order 1 Buy Limit 99 1)) (mk_order 2 Buy Limit 100 1))
     = (99, True)
   \<and> mk_order 2 Buy Limit 100 1
       \<in> set (bids (AddBid (AddBid NewOrderBook (mk_order 1 Buy Limit 99 1)) (mk_order 2 Buy Limit 100 1)))
   \<and> Price (mk_order 1 Buy Limit 99 1) < Price (mk_order 2 Buy Limit 100 1)"
  by (simp add: GetBestBid_def GetBestBidPrice_def AddBid_def NewOrderBook_def mk_order_def)

section \<open>C2: fill-or-kill\<close>

text \<open>
  C2. The claim is that a FOK order larger than the crossable liquidity produces no trade
  and changes no resting order. The code has no feasibility check: a FOK buy of 10 at 100
  against a single resting ask of 4 at 100 goes through the loop body like any other
  order. After the first pass a trade of 4 has been sent on the channel and the resting
  ask has \<open>Remaining\<close> 0, and the loop is still running (with 6 left to fill).
\<close>

theorem C2_fok_fills_before_any_check:
  "buy_at 1 (start book_ask4 no_trades (mk_order 2 Buy FOK 100 10)) =
     Some \<lparr>ob = \<lparr>bids = [],
                 asks = [\<lparr>ID = 1, Price = 100, Quantity = 4, Remaining = 0, Side = Sell,
                          Type = Limit, Instrument = ''BTC-USD'', Status = New\<rparr>],
                 incomingOrders = [],
                 processedTrades = [\<lparr>TradeID = 1, ExecutionID = 1, Price_t = 100,
                          Quantity_t = 4, MakerOrderID = 1, TakerOrderID = 2,
                          Instrument_t = ''BTC-USD'', Side_t = Buy\<rparr>]\<rparr>,
           order = \<lparr>ID = 2, Price = 100, Quantity = 10, Remaining = 6, Side = Buy,
                    Type = FOK, Instrument = ''BTC-USD'', Status = New\<rparr>,
           remainingQty = 6,
           ctr = \<lparr>tradeIDCounter = 1, executionCounter = 1\<rparr>\<rparr>"
  by (simp add: buy_eval)

section \<open>C3: resting orders have quantity left\<close>

text \<open>
  C3. The claim is that every resting order has \<open>remaining > 0\<close> and that an order whose
  \<open>remaining\<close> reaches 0 in a fill is removed from its side and marked Filled. The code
  calls \<open>removeAsk\<close>, whose body is empty, and never assigns \<open>Status\<close>: after a limit buy
  of 4 at 100 has filled the only resting ask of 4 at 100, \<open>ProcessBuyOrder\<close> returns
  with that ask still at the head of the ask side, with \<open>Remaining\<close> 0 and status New.
\<close>

theorem C3_exhausted_maker_stays_resting:
  "ProcessBuyOrder 2 book_ask4 no_trades (mk_order 2 Buy Limit 100 4) =
     Some \<lparr>ob = \<lparr>bids = [],
                 asks = [\<lparr>ID = 1, Price = 100, Quantity = 4, Remaining = 0, Side = Sell,
                          Type = Limit, Instrument = ''BTC-USD'', Status = New\<rparr>],
                 incomingOrders = [],
                 processedTrades = [\<lparr>TradeID = 1, ExecutionID = 1, Price_t = 100,
                          Quantity_t = 4, MakerOrderID = 1, TakerOrderID = 2,
                          Instrument_t = ''BTC-USD'', Side_t = Buy\<rparr>]\<rparr>,
           order = \<lparr>ID = 2, Price = 100, Quantity = 4, Remaining = 0, Side = Buy,
                    Type = Limit, Instrument = ''BTC-USD'', Status = New\<rparr>,
           remainingQty = 0,
           ctr = \<lparr>tradeIDCounter = 1, executionCounter = 1\<rparr>\<rparr>"
  by (simp add: buy_eval numeral_2_eq_2)

section \<open>C4: market orders\<close>




section \<open>C5: post-only orders\<close>

text \<open>
  C5. The claim is that a PostOnly order that would cross is rejected without a trade. The
  code never looks for the type PostOnly: a PostOnly buy of 3 at 100 against a resting
  ask of 4 at 100 is matched like a limit order. \<open>ProcessBuyOrder\<close> returns with one
  trade of 3 at 100 sent, the ask reduced to 1, and the order's status still New.
\<close>

theorem C5_postonly_order_matches:
  "ProcessBuyOrder 2 book_ask4 no_trades (mk_order 2 Buy PostOnly 100 3) =
     Some \<lparr>ob = \<lparr>bids = [],
                 asks = [\<lparr>ID = 1, Price = 100, Quantity = 4, Remaining = 1, Side = Sell,
                          Type = Limit, Instrument = ''BTC-USD'', Status = New\<rparr>],
                 incomingOrders = [],
                 processedTrades = [\<lparr>TradeID = 1, ExecutionID = 1, Price_t = 100,
                          Quantity_t = 3, MakerOrderID = 1, TakerOrderID = 2,
                          Instrument_t = ''BTC-USD'', Side_t = Buy\<rparr>]\<rparr>,
           order = \<lparr>ID = 2, Price = 100, Quantity = 3, Remaining = 0, Side = Buy,
                    Type = PostOnly, Instrument = ''BTC-USD'', Status = New\<rparr>,
           remainingQty = 0,
           ctr = \<lparr>tradeIDCounter = 1, executionCounter = 1\<rparr>\<rparr>"
  by (simp add: buy_eval numeral_2_eq_2)

section \<open>C6: the fill rule\<close>

text \<open>
  The claim C6 says that the taker crosses only if it is a Market order or its price is at
  or beyond the maker's, and that each fill decreases the taker's and the maker's
  \<open>Remaining\<close> by exactly the trade's quantity. The quantities are \<open>float64\<close>: a limit buy
  for \<open>10^17\<close> units at 100, which \<open>Validate\<close> accepts, fills 1 unit from a resting ask of
  1 at 100, and \<open>10^17 - 1\<close> rounds back to \<open>10^17\<close>: the trade has quantity 1 and the
  taker's \<open>Remaining\<close> is what it was. And \<open>Validate\<close> accepts an IOC buy whose price is
  NaN: the test \<open>order.Price < bestAsk.Price\<close> is then false, so the order fills against
  an ask at 100 although its price is not at or above 100.
\<close>

theorem C6_fill_is_rounded_and_nan_crosses:
  "Validate (mk_order64 2 Buy Limit (Fin 100) (Fin 100000000000000000)) = None
   \<and> buy_iter64 (start64 (book_ask64 (mk_order64 1 Sell Limit (Fin 100) (Fin 1))) no_trades
        (mk_order64 2 Buy Limit (Fin 100) (Fin 100000000000000000))) =
     Continue
       \<lparr>ob64 = \<lparr>bids64 = [],
                 asks64 = [\<lparr>ID64 = 1, Price64 = Fin 100, Quantity64 = Fin 1,
                            Remaining64 = Fin 0, Side64 = Sell, Type64 = Limit,
                            Instrument64 = ''BTC-USD'', Status64 = New\<rparr>],
                 incomingOrders64 = [],
                 processedTrades64 = [\<lparr>TradeID64 = 1, ExecutionID64 = 1,
                            TradePrice64 = Fin 100, TradeQuantity64 = Fin 1,
                            MakerOrderID64 = 1, TakerOrderID64 = 2,
                            TradeInstrument64 = ''BTC-USD'', TradeSide64 = Buy\<rparr>]\<rparr>,
        order64 = \<lparr>ID64 = 2, Price64 = Fin 100, Quantity64 = Fin 100000000000000000,
                   Remaining64 = Fin 100000000000000000, Side64 = Buy, Type64 = Limit,
                   Instrument64 = ''BTC-USD'', Status64 = New\<rparr>,
        remainingQty64 = Fin 100000000000000000,
        ctr64 = \<lparr>tradeIDCounter = 1, executionCounter = 1\<rparr>\<rparr>
   \<and> Validate (mk_order64 2 Buy IOC NaN (Fin 1)) = None
   \<and> buy_iter64 (start64 (book_ask64 (mk_order64 1 Sell Limit (Fin 100) (Fin 1))) no_trades
        (mk_order64 2 Buy IOC NaN (Fin 1))) =
     Continue
       \<lparr>ob64 = \<lparr>bids64 = [],
                 asks64 = [\<lparr>ID64 = 1, Price64 = Fin 100, Quantity64 = Fin 1,
                            Remaining64 = Fin 0, Side64 = Sell, Type64 = Limit,
                            Instrument64 = ''BTC-USD'', Status64 = New\<rparr>],
                 incomingOrders64 = [],
                 processedTrades64 = [\<lparr>TradeID64 = 1, ExecutionID64 = 1,
                            TradePrice64 = Fin 100, TradeQuantity64 = Fin 1,
                            MakerOrderID64 = 1, TakerOrderID64 = 2,
                            TradeInstrument64 = ''BTC-USD'', TradeSide64 = Buy\<rparr>]\<rparr>,
        order64 = \<lparr>ID64 = 2, Price64 = NaN, Quantity64 = Fin 1,
                   Remaining64 = Fin 0, Side64 = Buy, Type64 = IOC,
                   Instrument64 = ''BTC-USD'', Status64 = New\<rparr>,
        remainingQty64 = Fin 0,
        ctr64 = \<lparr>tradeIDCounter = 1, executionCounter = 1\<rparr>\<rparr>
   \<and> \<not> f_le (Fin 100) NaN"
  by (simp add: eval64 round64_below_1e17 round64_0)

text \<open>
  C6, as the code has it. Let an order be submitted with \<open>Remaining\<close> equal to \<open>Quantity\<close>,
  and take any pass through the body of the matching loop that sends a trade (the state
  \<open>sb\<close>, reached after \<open>nb\<close> earlier passes of \<open>ProcessBuyOrder\<close>; \<open>ss\<close> and \<open>ns\<close> for
  \<open>ProcessSellOrder\<close>). Then the opposite side has a head order, the maker; if neither
  the taker's nor the maker's price is NaN, the taker is a Market order or its price is at
  or beyond the maker's (not below it for a buy, not above it for a sell); exactly one
  trade is sent; its quantity is \<open>min\<close> of the taker's and the maker's \<open>Remaining\<close> before
  the pass; its price is the maker's price; and after the pass the taker and the maker
  are the same orders with \<open>Remaining\<close> replaced by the \<open>float64\<close> difference of the old
  \<open>Remaining\<close> and the trade's quantity, which is the exact difference rounded to the
  nearest \<open>float64\<close>.
\<close>

theorem C6_fill_rule_float64:
  assumes "Remaining64 tb = Quantity64 tb" and "Remaining64 ts = Quantity64 ts"
  shows "(buy_at64 nb (start64 bb cb tb) = Some sb
          \<and> processedTrades64 (ob64 (iter_state (buy_iter64 sb))) \<noteq> processedTrades64 (ob64 sb) \<longrightarrow>
          (\<exists>m t. GetBestAsk64 (ob64 sb) = Some m
             \<and> (Price64 (order64 sb) \<noteq> NaN \<and> Price64 m \<noteq> NaN \<longrightarrow>
                  Type64 (order64 sb) = Market \<or> f_le (Price64 m) (Price64 (order64 sb)))
             \<and> processedTrades64 (ob64 (iter_state (buy_iter64 sb)))
                 = processedTrades64 (ob64 sb) @ [t]
             \<and> TradeQuantity64 t = min64 (Remaining64 (order64 sb)) (Remaining64 m)
             \<and> TradePrice64 t = Price64 m
             \<and> order64 (iter_state (buy_iter64 sb))
                 = (order64 sb)\<lparr>Remaining64 :=
                      f_sub (Remaining64 (order64 sb)) (TradeQuantity64 t)\<rparr>
             \<and> GetBestAsk64 (ob64 (iter_state (buy_iter64 sb)))
                 = Some (m\<lparr>Remaining64 := f_sub (Remaining64 m) (TradeQuantity64 t)\<rparr>)))
       \<and> (sell_at64 ns (start64 bs cs ts) = Some ss
          \<and> processedTrades64 (ob64 (iter_state (sell_iter64 ss))) \<noteq> processedTrades64 (ob64 ss) \<longrightarrow>
          (\<exists>m t. GetBestBid64 (ob64 ss) = Some m
             \<and> (Price64 (order64 ss) \<noteq> NaN \<and> Price64 m \<noteq> NaN \<longrightarrow>
                  Type64 (order64 ss) = Market \<or> f_le (Price64 (order64 ss)) (Price64 m))
             \<and> processedTrades64 (ob64 (iter_state (sell_iter64 ss)))
                 = processedTrades64 (ob64 ss) @ [t]
             \<and> TradeQuantity64 t = min64 (Remaining64 (order64 ss)) (Remaining64 m)
             \<and> TradePrice64 t = Price64 m
             \<and> order64 (iter_state (sell_iter64 ss))
                 = (order64 ss)\<lparr>Remaining64 :=
                      f_sub (Remaining64 (order64 ss)) (TradeQuantity64 t)\<rparr>
             \<and> GetBestBid64 (ob64 (iter_state (sell_iter64 ss)))
                 = Some (m\<lparr>Remaining64 := f_sub (Remaining64 m) (TradeQuantity64 t)\<rparr>)))"
proof (intro conjI impI)
  assume h: "buy_at64 nb (start64 bb cb tb) = Some sb
    \<and> processedTrades64 (ob64 (iter_state (buy_iter64 sb))) \<noteq> processedTrades64 (ob64 sb)"
  from assms have "Remaining64 (order64 (start64 bb cb tb)) = remainingQty64 (start64 bb cb tb)"
    by (simp add: start64_def)
  with h have r: "Remaining64 (order64 sb) = remainingQty64 sb"
    using buy_at64_remaining by blast
  from h have "processedTrades64 (ob64 (iter_state (buy_iter64 sb))) \<noteq> processedTrades64 (ob64 sb)" ..
  from buy_iter64_fill [OF this] obtain m t where f:
    "GetBestAsk64 (ob64 sb) = Some m"
    "Type64 (order64 sb) = Market \<or> \<not> f_lt (Price64 (order64 sb)) (Price64 m)"
    "processedTrades64 (ob64 (iter_state (buy_iter64 sb))) = processedTrades64 (ob64 sb) @ [t]"
    "TradeQuantity64 t = min64 (remainingQty64 sb) (Remaining64 m)"
    "TradePrice64 t = Price64 m"
    "order64 (iter_state (buy_iter64 sb))
       = (order64 sb)\<lparr>Remaining64 := f_sub (Remaining64 (order64 sb)) (TradeQuantity64 t)\<rparr>"
    "GetBestAsk64 (ob64 (iter_state (buy_iter64 sb)))
       = Some (m\<lparr>Remaining64 := f_sub (Remaining64 m) (TradeQuantity64 t)\<rparr>)"
    by blast
  from f(2) have "Price64 (order64 sb) \<noteq> NaN \<and> Price64 m \<noteq> NaN \<longrightarrow>
      Type64 (order64 sb) = Market \<or> f_le (Price64 m) (Price64 (order64 sb))"
    using f_lt_total by blast
  with f r show "\<exists>m t. GetBestAsk64 (ob64 sb) = Some m
             \<and> (Price64 (order64 sb) \<noteq> NaN \<and> Price64 m \<noteq> NaN \<longrightarrow>
                  Type64 (order64 sb) = Market \<or> f_le (Price64 m) (Price64 (order64 sb)))
             \<and> processedTrades64 (ob64 (iter_state (buy_iter64 sb)))
                 = processedTrades64 (ob64 sb) @ [t]
             \<and> TradeQuantity64 t = min64 (Remaining64 (order64 sb)) (Remaining64 m)
             \<and> TradePrice64 t = Price64 m
             \<and> order64 (iter_state (buy_iter64 sb))
                 = (order64 sb)\<lparr>Remaining64 :=
                      f_sub (Remaining64 (order64 sb)) (TradeQuantity64 t)\<rparr>
             \<and> GetBestAsk64 (ob64 (iter_state (buy_iter64 sb)))
                 = Some (m\<lparr>Remaining64 := f_sub (Remaining64 m) (TradeQuantity64 t)\<rparr>)"
    by (intro exI [of _ m] exI [of _ t]) simp
next
  assume h: "sell_at64 ns (start64 bs cs ts) = Some ss
    \<and> processedTrades64 (ob64 (iter_state (sell_iter64 ss))) \<noteq> processedTrades64 (ob64 ss)"
  from assms have "Remaining64 (order64 (start64 bs cs ts)) = remainingQty64 (start64 bs cs ts)"
    by (simp add: start64_def)
  with h have r: "Remaining64 (order64 ss) = remainingQty64 ss"
    using sell_at64_remaining by blast
  from h have "processedTrades64 (ob64 (iter_state (sell_iter64 ss))) \<noteq> processedTrades64 (ob64 ss)" ..
  from sell_iter64_fill [OF this] obtain m t where f:
    "GetBestBid64 (ob64 ss) = Some m"
    "Type64 (order64 ss) = Market \<or> \<not> f_lt (Price64 m) (Price64 (order64 ss))"
    "processedTrades64 (ob64 (iter_state (sell_iter64 ss))) = processedTrades64 (ob64 ss) @ [t]"
    "TradeQuantity64 t = min64 (remainingQty64 ss) (Remaining64 m)"
    "TradePrice64 t = Price64 m"
    "order64 (iter_state (sell_iter64 ss))
       = (order64 ss)\<lparr>Remaining64 := f_sub (Remaining64 (order64 ss)) (TradeQuantity64 t)\<rparr>"
    "GetBestBid64 (ob64 (iter_state (sell_iter64 ss)))
       = Some (m\<lparr>Remaining64 := f_sub (Remaining64 m) (TradeQuantity64 t)\<rparr>)"
    by blast
  from f(2) have "Price64 (order64 ss) \<noteq> NaN \<and> Price64 m \<noteq> NaN \<longrightarrow>
      Type64 (order64 ss) = Market \<or> f_le (Price64 (order64 ss)) (Price64 m)"
    using f_lt_total by blast
  with f r show "\<exists>m t. GetBestBid64 (ob64 ss) = Some m
             \<and> (Price64 (order64 ss) \<noteq> NaN \<and> Price64 m \<noteq> NaN \<longrightarrow>
                  Type64 (order64 ss) = Market \<or> f_le (Price64 (order64 ss)) (Price64 m))
             \<and> processedTrades64 (ob64 (iter_state (sell_iter64 ss)))
                 = processedTrades64 (ob64 ss) @ [t]
             \<and> TradeQuantity64 t = min64 (Remaining64 (order64 ss)) (Remaining64 m)
             \<and> TradePrice64 t = Price64 m
             \<and> order64 (iter_state (sell_iter64 ss))
                 = (order64 ss)\<lparr>Remaining64 :=
                      f_sub (Remaining64 (order64 ss)) (TradeQuantity64 t)\<rparr>
             \<and> GetBestBid64 (ob64 (iter_state (sell_iter64 ss)))
                 = Some (m\<lparr>Remaining64 := f_sub (Remaining64 m) (TradeQuantity64 t)\<rparr>)"
    by (intro exI [of _ m] exI [of _ t]) simp
qed

text \<open>
  The statement at the first pass of a limit buy of 10 at 101 against a resting ask of 4
  at 100, and of a limit sell of 10 at 99 against a resting bid of 4 at 100: each takes 4
  units at the maker's price of 100 and is left with 6, and the maker with 0.
\<close>

theorem C6_fill_rule_float64_witness:
  "Remaining64 (mk_order64 2 Buy Limit (Fin 101) (Fin 10))
     = Quantity64 (mk_order64 2 Buy Limit (Fin 101) (Fin 10))
   \<and> Remaining64 (mk_order64 4 Sell Limit (Fin 99) (Fin 10))
     = Quantity64 (mk_order64 4 Sell Limit (Fin 99) (Fin 10))
   \<and> buy_at64 0 (start64 (book_ask64 (mk_order64 1 Sell Limit (Fin 100) (Fin 4))) no_trades
         (mk_order64 2 Buy Limit (Fin 101) (Fin 10)))
       = Some (start64 (book_ask64 (mk_order64 1 Sell Limit (Fin 100) (Fin 4))) no_trades
         (mk_order64 2 Buy Limit (Fin 101) (Fin 10)))
   \<and> processedTrades64 (ob64 (iter_state (buy_iter64
         (start64 (book_ask64 (mk_order64 1 Sell Limit (Fin 100) (Fin 4))) no_trades
           (mk_order64 2 Buy Limit (Fin 101) (Fin 10))))))
       \<noteq> processedTrades64 (ob64
         (start64 (book_ask64 (mk_order64 1 Sell Limit (Fin 100) (Fin 4))) no_trades
           (mk_order64 2 Buy Limit (Fin 101) (Fin 10))))
   \<and> sell_at64 0 (start64 (book_bid64 (mk_order64 3 Buy Limit (Fin 100) (Fin 4))) no_trades
         (mk_order64 4 Sell Limit (Fin 99) (Fin 10)))
       = Some (start64 (book_bid64 (mk_order64 3 Buy Limit (Fin 100) (Fin 4))) no_trades
         (mk_order64 4 Sell Limit (Fin 99) (Fin 10)))
   \<and> processedTrades64 (ob64 (iter_state (sell_iter64
         (start64 (book_bid64 (mk_order64 3 Buy Limit (Fin 100) (Fin 4))) no_trades
           (mk_order64 4 Sell Limit (Fin 99) (Fin 10))))))
       \<noteq> processedTrades64 (ob64
         (start64 (book_bid64 (mk_order64 3 Buy Limit (Fin 100) (Fin 4))) no_trades
           (mk_order64 4 Sell Limit (Fin 99) (Fin 10))))
   \<and> (\<exists>m t. GetBestAsk64 (book_ask64 (mk_order64 1 Sell Limit (Fin 100) (Fin 4))) = Some m
         \<and> f_le (Price64 m) (Fin 101)
         \<and> processedTrades64 (ob64 (iter_state (buy_iter64
               (start64 (book_ask64 (mk_order64 1 Sell Limit (Fin 100) (Fin 4))) no_trades
                 (mk_order64 2 Buy Limit (Fin 101) (Fin 10)))))) = [t]
         \<and> TradeQuantity64 t = Fin 4 \<and> TradePrice64 t = Fin 100
         \<and> Remaining64 (order64 (iter_state (buy_iter64
               (start64 (book_ask64 (mk_order64 1 Sell Limit (Fin 100) (Fin 4))) no_trades
                 (mk_order64 2 Buy Limit (Fin 101) (Fin 10)))))) = Fin 6
         \<and> GetBestAsk64 (ob64 (iter_state (buy_iter64
               (start64 (book_ask64 (mk_order64 1 Sell Limit (Fin 100) (Fin 4))) no_trades
                 (mk_order64 2 Buy Limit (Fin 101) (Fin 10))))))
             = Some (m\<lparr>Remaining64 := Fin 0\<rparr>))
   \<and> (\<exists>m t. GetBestBid64 (book_bid64 (mk_order64 3 Buy Limit (Fin 100) (Fin 4))) = Some m
         \<and> f_le (Fin 99) (Price64 m)
         \<and> processedTrades64 (ob64 (iter_state (sell_iter64
               (start64 (book_bid64 (mk_order64 3 Buy Limit (Fin 100) (Fin 4))) no_trades
                 (mk_order64 4 Sell Limit (Fin 99) (Fin 10)))))) = [t]
         \<and> TradeQuantity64 t = Fin 4 \<and> TradePrice64 t = Fin 100
         \<and> Remaining64 (order64 (iter_state (sell_iter64
               (start64 (book_bid64 (mk_order64 3 Buy Limit (Fin 100) (Fin 4))) no_trades
                 (mk_order64 4 Sell Limit (Fin 99) (Fin 10)))))) = Fin 6
         \<and> GetBestBid64 (ob64 (iter_state (sell_iter64
               (start64 (book_bid64 (mk_order64 3 Buy Limit (Fin 100) (Fin 4))) no_trades
                 (mk_order64 4 Sell Limit (Fin 99) (Fin 10))))))
             = Some (m\<lparr>Remaining64 := Fin 0\<rparr>))"
  using C6_fill_rule_float64
    [where tb = "mk_order64 2 Buy Limit (Fin 101) (Fin 10)"
       and ts = "mk_order64 4 Sell Limit (Fin 99) (Fin 10)"
       and bb = "book_ask64 (mk_order64 1 Sell Limit (Fin 100) (Fin 4))"
       and bs = "book_bid64 (mk_order64 3 Buy Limit (Fin 100) (Fin 4))"
       and cb = no_trades and cs = no_trades and nb = 0 and ns = 0
       and sb = "start64 (book_ask64 (mk_order64 1 Sell Limit (Fin 100) (Fin 4))) no_trades
                   (mk_order64 2 Buy Limit (Fin 101) (Fin 10))"
       and ss = "start64 (book_bid64 (mk_order64 3 Buy Limit (Fin 100) (Fin 4))) no_trades
                   (mk_order64 4 Sell Limit (Fin 99) (Fin 10))"]
  by (simp add: eval64 round64_6 round64_0)

section \<open>C7: immediate-or-cancel\<close>

text \<open>
  The claim C7 says that an IOC order of 10 against 4 units of crossable liquidity trades
  4 and ends Partial. In the code an IOC order leaves the loop after its first fill
  whenever quantity is left, and no statement assigns \<open>Status\<close>. With the 4 units resting
  as two asks of 2 at 100, an IOC buy of 10 at 100 trades 2 only; with the 4 units in one
  ask, it trades 4 and its status is still New.
\<close>

theorem C7_ioc_stops_after_first_fill:
  "ProcessBuyOrder 2 book_ask2_2 no_trades (mk_order 2 Buy IOC 100 10) =
     Some \<lparr>ob = \<lparr>bids = [],
                 asks = [\<lparr>ID = 1, Price = 100, Quantity = 2, Remaining = 0, Side = Sell,
                          Type = Limit, Instrument = ''BTC-USD'', Status = New\<rparr>,
                         \<lparr>ID = 3, Price = 100, Quantity = 2, Remaining = 2, Side = Sell,
                          Type = Limit, Instrument = ''BTC-USD'', Status = New\<rparr>],
                 incomingOrders = [],
                 processedTrades = [\<lparr>TradeID = 1, ExecutionID = 1, Price_t = 100,
                          Quantity_t = 2, MakerOrderID = 1, TakerOrderID = 2,
                          Instrument_t = ''BTC-USD'', Side_t = Buy\<rparr>]\<rparr>,
           order = \<lparr>ID = 2, Price = 100, Quantity = 10, Remaining = 8, Side = Buy,
                    Type = IOC, Instrument = ''BTC-USD'', Status = New\<rparr>,
           remainingQty = 8,
           ctr = \<lparr>tradeIDCounter = 1, executionCounter = 1\<rparr>\<rparr>
   \<and> ProcessBuyOrder 2 book_ask4 no_trades (mk_order 2 Buy IOC 100 10) =
     Some \<lparr>ob = \<lparr>bids = [],
                 asks = [\<lparr>ID = 1, Price = 100, Quantity = 4, Remaining = 0, Side = Sell,
                          Type = Limit, Instrument = ''BTC-USD'', Status = New\<rparr>],
                 incomingOrders = [],
                 processedTrades = [\<lparr>TradeID = 1, ExecutionID = 1, Price_t = 100,
                          Quantity_t = 4, MakerOrderID = 1, TakerOrderID = 2,
                          Instrument_t = ''BTC-USD'', Side_t = Buy\<rparr>]\<rparr>,
           order = \<lparr>ID = 2, Price = 100, Quantity = 10, Remaining = 6, Side = Buy,
                    Type = IOC, Instrument = ''BTC-USD'', Status = New\<rparr>,
           remainingQty = 6,
           ctr = \<lparr>tradeIDCounter = 1, executionCounter = 1\<rparr>\<rparr>"
  by (simp add: buy_eval book_ask2_2_def numeral_2_eq_2)

text \<open>
  C7, as the code has it. An IOC order for 10 units (submitted with \<open>Remaining\<close> 10) that
  crosses the head of the opposite side, when that head has 4 units remaining, returns
  after one pass: exactly one trade is sent, of quantity 4 at the head's price, between
  the head as maker and the order as taker; the order is left with \<open>Remaining\<close> 6; its own
  side is unchanged, and the opposite side holds no order it did not hold before other
  than the head with its \<open>Remaining\<close> reduced to 0: the order is added to neither side.
\<close>

theorem C7_ioc_fills_head_only:
  assumes "Type tb = IOC" "Quantity tb = 10" "Remaining tb = 10" "Remaining mb = 4"
    and "Type ts = IOC" "Quantity ts = 10" "Remaining ts = 10" "Remaining ms = 4"
  shows "(GetBestAsk bb = Some mb \<and> Price mb \<le> Price tb \<longrightarrow>
           (\<exists>t s. ProcessBuyOrder (Suc nb) bb cb tb = Some s
              \<and> processedTrades (ob s) = processedTrades bb @ [t]
              \<and> Quantity_t t = 4 \<and> Price_t t = Price mb
              \<and> MakerOrderID t = ID mb \<and> TakerOrderID t = ID tb
              \<and> order s = tb\<lparr>Remaining := 6\<rparr>
              \<and> bids (ob s) = bids bb
              \<and> set (asks (ob s)) \<subseteq> insert (mb\<lparr>Remaining := 0\<rparr>) (set (asks bb))))
       \<and> (GetBestBid bs = Some ms \<and> Price ts \<le> Price ms \<longrightarrow>
           (\<exists>t s. ProcessSellOrder (Suc ns) bs cs ts = Some s
              \<and> processedTrades (ob s) = processedTrades bs @ [t]
              \<and> Quantity_t t = 4 \<and> Price_t t = Price ms
              \<and> MakerOrderID t = ID ms \<and> TakerOrderID t = ID ts
              \<and> order s = ts\<lparr>Remaining := 6\<rparr>
              \<and> asks (ob s) = asks bs
              \<and> set (bids (ob s)) \<subseteq> insert (ms\<lparr>Remaining := 0\<rparr>) (set (bids bs))))"
proof (intro conjI impI)
  assume "GetBestAsk bb = Some mb \<and> Price mb \<le> Price tb"
  then obtain rest where a: "asks bb = mb # rest" and p: "Price mb \<le> Price tb"
    by (auto simp: GetBestAsk_def split: list.splits)
  show "\<exists>t s. ProcessBuyOrder (Suc nb) bb cb tb = Some s
              \<and> processedTrades (ob s) = processedTrades bb @ [t]
              \<and> Quantity_t t = 4 \<and> Price_t t = Price mb
              \<and> MakerOrderID t = ID mb \<and> TakerOrderID t = ID tb
              \<and> order s = tb\<lparr>Remaining := 6\<rparr>
              \<and> bids (ob s) = bids bb
              \<and> set (asks (ob s)) \<subseteq> insert (mb\<lparr>Remaining := 0\<rparr>) (set (asks bb))"
    using a by (auto simp: buy_ioc_head [OF assms(1-4) a p] createTradeDraft_fields)
next
  assume "GetBestBid bs = Some ms \<and> Price ts \<le> Price ms"
  then obtain rest where a: "bids bs = ms # rest" and p: "Price ts \<le> Price ms"
    by (auto simp: GetBestBid_def split: list.splits)
  show "\<exists>t s. ProcessSellOrder (Suc ns) bs cs ts = Some s
              \<and> processedTrades (ob s) = processedTrades bs @ [t]
              \<and> Quantity_t t = 4 \<and> Price_t t = Price ms
              \<and> MakerOrderID t = ID ms \<and> TakerOrderID t = ID ts
              \<and> order s = ts\<lparr>Remaining := 6\<rparr>
              \<and> asks (ob s) = asks bs
              \<and> set (bids (ob s)) \<subseteq> insert (ms\<lparr>Remaining := 0\<rparr>) (set (bids bs))"
    using a by (auto simp: sell_ioc_head [OF assms(5-8) a p] createTradeDraft_fields)
qed

text \<open>The statement at an IOC buy and an IOC sell of 10 at 100, each against one resting
  order of 4 at 100.\<close>

theorem C7_ioc_fills_head_only_witness:
  "Type (mk_order 2 Buy IOC 100 10) = IOC \<and> Quantity (mk_order 2 Buy IOC 100 10) = 10
   \<and> Remaining (mk_order 2 Buy IOC 100 10) = 10 \<and> Remaining (mk_order 1 Sell Limit 100 4) = 4
   \<and> Type (mk_order 4 Sell IOC 100 10) = IOC \<and> Quantity (mk_order 4 Sell IOC 100 10) = 10
   \<and> Remaining (mk_order 4 Sell IOC 100 10) = 10 \<and> Remaining (mk_order 1 Buy Limit 100 4) = 4
   \<and> GetBestAsk book_ask4 = Some (mk_order 1 Sell Limit 100 4)
   \<and> Price (mk_order 1 Sell Limit 100 4) \<le> Price (mk_order 2 Buy IOC 100 10)
   \<and> GetBestBid book_bid4 = Some (mk_order 1 Buy Limit 100 4)
   \<and> Price (mk_order 4 Sell IOC 100 10) \<le> Price (mk_order 1 Buy Limit 100 4)
   \<and> (\<exists>t s. ProcessBuyOrder 1 book_ask4 no_trades (mk_order 2 Buy IOC 100 10) = Some s
         \<and> processedTrades (ob s) = [t] \<and> Quantity_t t = 4 \<and> Price_t t = 100
         \<and> Remaining (order s) = 6 \<and> bids (ob s) = [])
   \<and> (\<exists>t s. ProcessSellOrder 1 book_bid4 no_trades (mk_order 4 Sell IOC 100 10) = Some s
         \<and> processedTrades (ob s) = [t] \<and> Quantity_t t = 4 \<and> Price_t t = 100
         \<and> Remaining (order s) = 6 \<and> asks (ob s) = [])"
  using C7_ioc_fills_head_only
    [where tb = "mk_order 2 Buy IOC 100 10" and mb = "mk_order 1 Sell Limit 100 4"
       and ts = "mk_order 4 Sell IOC 100 10" and ms = "mk_order 1 Buy Limit 100 4"
       and bb = book_ask4 and bs = book_bid4 and cb = no_trades and cs = no_trades
       and nb = 0 and ns = 0]
  by (simp add: buy_eval sell_eval book_bid4_def)

section \<open>C8: unknown instrument\<close>

text \<open>
  C8. The claim is that an order for an instrument without a registered book is rejected
  with an UnknownInstrument error, with no state changed. No draft of the engine has such
  an error. In the first draft \<open>getOrderBook\<close> returns nil for an unknown instrument and
  \<open>matchOrder\<close> uses the result unchecked: with the four books that \<open>main\<close> registers, an
  order for DOGE-USD makes \<open>matchOrder\<close> panic on a nil pointer. The later drafts of
  \<open>getOrderBook\<close> create and register a new book for DOGE-USD instead.
\<close>

theorem C8_unknown_instrument_panics:
  "matchOrder main_engine ((mk_order 7 Buy Limit 1 1)\<lparr>Instrument := ''DOGE-USD''\<rparr>)
     = Inl NilPointerDereference
   \<and> orderBooks main_engine ''DOGE-USD'' = None
   \<and> orderBooks (snd (getOrderBook_lazy main_engine ''DOGE-USD'')) ''DOGE-USD'' = Some NewOrderBook"
  by (simp add: matchOrder_def getOrderBook_def getOrderBook_lazy_def main_engine_def
      RegisterOrderBook_def NewMatchingEngine_def mk_order_def)

section \<open>C9: snapshots\<close>

text \<open>
  The claim C9 says that the second of two snapshots always has the greater sequence
  number. The counter is a \<open>uint64\<close> and \<open>atomic.AddUint64\<close> wraps: with the counter at
  \<open>2^64 - 2\<close>, the first snapshot gets the sequence number \<open>2^64 - 1\<close> and the second
  gets 0.
\<close>

theorem C9_sequence_wraps:
  "Sequence (fst (takeSnapshot sm_wrap ''BTC-USD'' NewOrderBook)) = 18446744073709551615
   \<and> Sequence (fst (takeSnapshot (snd (takeSnapshot sm_wrap ''BTC-USD'' NewOrderBook))
        ''BTC-USD'' NewOrderBook)) = 0"
  by (simp add: takeSnapshot_def sm_wrap_def sm_btc_def sm_RegisterOrderBook_def
      NewSnapshotManager_def Let_def)

text \<open>
  C9, as the code has it. Two snapshots of the same book have the same \<open>Bids\<close>, \<open>Asks\<close>
  and \<open>Stats\<close>, whatever the state of the manager. The sequence numbers come from the one
  counter of the manager, shared by all instruments, and grow as long as the counter
  does not wrap around: of two \<open>takeSnapshot\<close> calls in a row (of any books) the second
  gets the greater number when the counter is below \<open>2^64 - 2\<close> before them; and of two
  \<open>TakeSnapshots\<close> cycles in a row (each visiting its registered books in any order), the
  snapshot the second cycle publishes for an instrument has the same \<open>Bids\<close>, \<open>Asks\<close> and
  \<open>Stats\<close> as, and a greater sequence number than, the one the first cycle published,
  when the counter stays below \<open>2^64\<close> over both cycles.
\<close>

theorem C9_snapshots_repeat_and_sequence_grows:
  "(Bids (fst (takeSnapshot sm i b)) = Bids (fst (takeSnapshot sm2 i b))
      \<and> Asks (fst (takeSnapshot sm i b)) = Asks (fst (takeSnapshot sm2 i b))
      \<and> Stats (fst (takeSnapshot sm i b)) = Stats (fst (takeSnapshot sm2 i b)))
   \<and> (unat (sequenceID sm) + 2 < 2 ^ 64 \<longrightarrow>
        Sequence (fst (takeSnapshot sm i b))
          < Sequence (fst (takeSnapshot (snd (takeSnapshot sm i b)) j b2)))
   \<and> (unat (sequenceID sm) + length ks1 + length ks2 < 2 ^ 64
        \<and> i \<in> set ks1 \<and> i \<in> set ks2 \<and> sm_orderBooks sm i = Some b \<longrightarrow>
        (\<exists>x1 x2. snapshots (TakeSnapshots ks1 sm) i = Some x1
           \<and> snapshots (TakeSnapshots ks2 (TakeSnapshots ks1 sm)) i = Some x2
           \<and> Bids x1 = Bids x2 \<and> Asks x1 = Asks x2 \<and> Stats x1 = Stats x2
           \<and> Sequence x1 < Sequence x2))"
proof (intro conjI impI)
  show "Bids (fst (takeSnapshot sm i b)) = Bids (fst (takeSnapshot sm2 i b))"
    "Asks (fst (takeSnapshot sm i b)) = Asks (fst (takeSnapshot sm2 i b))"
    "Stats (fst (takeSnapshot sm i b)) = Stats (fst (takeSnapshot sm2 i b))"
    by (simp_all add: takeSnapshot_fields)
next
  assume h: "unat (sequenceID sm) + 2 < 2 ^ 64"
  then have "unat (sequenceID sm + 1) = unat (sequenceID sm) + 1"
    by (intro unat_plus_one) simp
  moreover from this h have "unat (sequenceID sm + 1 + 1) = unat (sequenceID sm + 1) + 1"
    by (intro unat_plus_one) simp
  ultimately show "Sequence (fst (takeSnapshot sm i b))
          < Sequence (fst (takeSnapshot (snd (takeSnapshot sm i b)) j b2))"
    by (simp add: takeSnapshot_fields word_less_nat_alt)
next
  assume h: "unat (sequenceID sm) + length ks1 + length ks2 < 2 ^ 64
        \<and> i \<in> set ks1 \<and> i \<in> set ks2 \<and> sm_orderBooks sm i = Some b"
  then have b1: "unat (sequenceID sm) + length ks1 < 2 ^ 64" by simp
  note f1 = TakeSnapshots_facts [OF b1]
  from h f1(2) have b2: "unat (sequenceID (TakeSnapshots ks1 sm)) + length ks2 < 2 ^ 64" by simp
  note f2 = TakeSnapshots_facts [OF b2]
  from h f1(4) [of i b] obtain x1 where x1: "snapshots (TakeSnapshots ks1 sm) i = Some x1"
    "Bids x1 = Bids (GetMarketDepth b 100)" "Asks x1 = Asks (GetMarketDepth b 100)"
    "Stats x1 = calculateStats (GetMarketDepth b 100)"
    "unat (Sequence x1) \<le> unat (sequenceID (TakeSnapshots ks1 sm))" by blast
  from h f1(3) have "sm_orderBooks (TakeSnapshots ks1 sm) i = Some b" by simp
  with h f2(4) [of i b] obtain x2 where x2:
    "snapshots (TakeSnapshots ks2 (TakeSnapshots ks1 sm)) i = Some x2"
    "Bids x2 = Bids (GetMarketDepth b 100)" "Asks x2 = Asks (GetMarketDepth b 100)"
    "Stats x2 = calculateStats (GetMarketDepth b 100)"
    "unat (sequenceID (TakeSnapshots ks1 sm)) < unat (Sequence x2)" by blast
  from x1 x2 have "Sequence x1 < Sequence x2" by (simp add: word_less_nat_alt)
  with x1 x2 show "\<exists>x1 x2. snapshots (TakeSnapshots ks1 sm) i = Some x1
           \<and> snapshots (TakeSnapshots ks2 (TakeSnapshots ks1 sm)) i = Some x2
           \<and> Bids x1 = Bids x2 \<and> Asks x1 = Asks x2 \<and> Stats x1 = Stats x2
           \<and> Sequence x1 < Sequence x2" by simp
qed

text \<open>The statement at a fresh manager with one registered book and two cycles over it.\<close>

theorem C9_snapshots_witness:
  "unat (sequenceID sm_btc) + 2 < 2 ^ 64
   \<and> Sequence (fst (takeSnapshot sm_btc ''BTC-USD'' NewOrderBook))
       < Sequence (fst (takeSnapshot (snd (takeSnapshot sm_btc ''BTC-USD'' NewOrderBook))
           ''ETH-USD'' NewOrderBook))
   \<and> unat (sequenceID sm_btc) + length [''BTC-USD''] + length [''BTC-USD''] < 2 ^ 64
   \<and> ''BTC-USD'' \<in> set [''BTC-USD'']
   \<and> sm_orderBooks sm_btc ''BTC-USD'' = Some NewOrderBook
   \<and> (\<exists>x1 x2. snapshots (TakeSnapshots [''BTC-USD''] sm_btc) ''BTC-USD'' = Some x1
         \<and> snapshots (TakeSnapshots [''BTC-USD''] (TakeSnapshots [''BTC-USD''] sm_btc)) ''BTC-USD''
             = Some x2
         \<and> Bids x1 = Bids x2 \<and> Asks x1 = Asks x2 \<and> Stats x1 = Stats x2
         \<and> Sequence x1 < Sequence x2)"
  using C9_snapshots_repeat_and_sequence_grows
    [where sm = sm_btc and ?sm2.0 = sm_btc and i = "''BTC-USD''" and j = "''ETH-USD''"
       and b = NewOrderBook and ?b2.0 = NewOrderBook
       and ?ks1.0 = "[''BTC-USD'']" and ?ks2.0 = "[''BTC-USD'']"]
  by (simp add: sm_btc_def sm_RegisterOrderBook_def NewSnapshotManager_def)

section \<open>C10: termination of the matching loop\<close>

text \<open>
  C10. The claim is that the matching loop terminates, in particular when a maker's
  \<open>Remaining\<close> reaches 0 while the taker still wants quantity. Since \<open>removeAsk\<close> does
  nothing, the exhausted maker stays the head of its side: a limit buy of 10 at 100
  against a single resting ask of 4 at 100 fills 4 and then goes through the body for
  ever, sending a trade of quantity 0 each time. \<open>ProcessBuyOrder\<close> returns with no
  amount of fuel.
\<close>

theorem C10_loop_never_returns:
  "\<forall>n. ProcessBuyOrder n book_ask4 no_trades (mk_order 2 Buy Limit 100 10) = None"
proof
  fix n
  show "ProcessBuyOrder n book_ask4 no_trades (mk_order 2 Buy Limit 100 10) = None"
  proof (cases n)
    case 0
    then show ?thesis by (simp add: ProcessBuyOrder_def)
  next
    case (Suc k)
    obtain s1 where s1:
      "buy_iter (start book_ask4 no_trades (mk_order 2 Buy Limit 100 10)) = Continue s1"
      and h: "GetBestAsk (ob s1) = Some ((mk_order 1 Sell Limit 100 4)\<lparr>Remaining := 0\<rparr>)"
        "remainingQty s1 = 6" "Type (order s1) = Limit" "Price (order s1) = 100"
      by (simp add: buy_eval)
    have "buy_loop k s1 = None"
      by (rule buy_loop_spin [OF h(1)]) (simp_all add: h mk_order_def)
    with s1 Suc show ?thesis by (simp add: ProcessBuyOrder_def)
  qed
qed

end
